theory Spec2Isabelle
  imports Main "HOL-Library.AList"
begin

section \<open>Common data: time, messages, exceptions\<close>

text \<open>
  Dates are milliseconds since the epoch; \<open>new Date()\<close> is the parameter \<open>now\<close> of the
  operation that reads the clock. A nullable or optional field is an \<open>option\<close>.
\<close>

type_synonym date = int

text \<open>
  The argument of a NestJS exception is a string or, where the collaborator's \<open>message\<close>
  is passed through unchanged, an array of strings.
\<close>

datatype message = Str string | Arr "string list"

datatype exn =
    ConflictException message
  | InternalServerErrorException message
  | NotFoundException message
  | BadRequestException message
  | ForbiddenException message
  | Error string
  | TypeError string
  | BSONError string
  | CastError string
  | ValidationError string
  | MongoServerError string
  | QueryFailedError string

subsection \<open>\<open>ERROR_MESSAGES\<close> of \<open>common/constants/messages.constant.ts\<close>\<close>

definition USER_NOT_FOUND :: string where
  "USER_NOT_FOUND = ''User not found''"

definition ADMIN_NOT_FOUND :: string where
  "ADMIN_NOT_FOUND = ''Admin user not found''"

definition ADMIN_ALREADY_EXISTS :: string where
  "ADMIN_ALREADY_EXISTS = ''Admin user with this email already exists''"

definition ADMIN_CREATION_FAILED :: string where
  "ADMIN_CREATION_FAILED = ''Failed to create admin user''"

definition ADMIN_SELF_SUSPEND :: string where
  "ADMIN_SELF_SUSPEND = ''You cannot suspend your own account''"

definition ADMIN_ALREADY_SUSPENDED :: string where
  "ADMIN_ALREADY_SUSPENDED = ''Admin user is already suspended''"

definition ADMIN_INSUFFICIENT_PERMISSIONS :: string where
  "ADMIN_INSUFFICIENT_PERMISSIONS = ''Insufficient permissions to suspend this admin''"

definition ADMIN_SELF_REACTIVATE :: string where
  "ADMIN_SELF_REACTIVATE = ''You cannot reactivate your own account''"

definition ADMIN_ALREADY_ACTIVE :: string where
  "ADMIN_ALREADY_ACTIVE = ''Admin user is already active''"

definition ADMIN_INSUFFICIENT_PERMISSIONS_REACTIVATE :: string where
  "ADMIN_INSUFFICIENT_PERMISSIONS_REACTIVATE =
     ''Insufficient permissions to reactivate this admin''"

definition AUTH_SERVICE_SIGNUP_FAILED :: string where
  "AUTH_SERVICE_SIGNUP_FAILED = ''Failed to create user in auth service''"

definition AUTH_SERVICE_UNAVAILABLE :: string where
  "AUTH_SERVICE_UNAVAILABLE = ''Auth service is currently unavailable''"

definition AUTH_SERVICE_VALIDATION_ERROR :: string where
  "AUTH_SERVICE_VALIDATION_ERROR = ''Auth service validation failed''"

definition RESET_LINK_SEND_FAILED :: string where
  "RESET_LINK_SEND_FAILED = ''Failed to send password reset link''"


section \<open>Strings and object identifiers\<close>

text \<open>
  The schema options \<open>trim\<close> and \<open>lowercase\<close> are setters applied when a field is set.
  Characters are bytes here, so \<open>toLowerCase\<close> covers the ASCII letters.
\<close>

definition isSpace :: "char \<Rightarrow> bool" where
  "isSpace c = (c \<in> set [CHR '' '', CHR 0x09, CHR 0x0A, CHR 0x0B, CHR 0x0C, CHR 0x0D])"

definition trim :: "string \<Rightarrow> string" where
  "trim s = rev (dropWhile isSpace (rev (dropWhile isSpace s)))"

definition toLowerChar :: "char \<Rightarrow> char" where
  "toLowerChar c =
     (case map_of (zip ''ABCDEFGHIJKLMNOPQRSTUVWXYZ'' ''abcdefghijklmnopqrstuvwxyz'') c of
        Some l \<Rightarrow> l
      | None \<Rightarrow> c)"

definition toLowerCase :: "string \<Rightarrow> string" where
  "toLowerCase s = map toLowerChar s"

definition isHexDigit :: "char \<Rightarrow> bool" where
  "isHexDigit c = (c \<in> set ''0123456789abcdefABCDEF'')"

text \<open>
  An \<open>ObjectId\<close> is kept as its lower-case hexadecimal form, which is what \<open>toString()\<close>
  gives and what equality of ids in a query compares. \<open>new Types.ObjectId(s)\<close> throws
  unless \<open>s\<close> is a string of 24 hexadecimal digits; a string given for \<open>_id\<close> (the
  argument of \<open>findById\<close> and of \<open>findByIdAndUpdate\<close>) is cast under the same rule and
  the query is rejected with a \<open>CastError\<close> otherwise.
\<close>

datatype ObjectId = ObjectId string

definition isObjectIdString :: "string \<Rightarrow> bool" where
  "isObjectIdString s = (length s = 24 \<and> list_all isHexDigit s)"

definition new_ObjectId :: "string \<Rightarrow> exn + ObjectId" where
  "new_ObjectId s =
     (if isObjectIdString s then Inr (ObjectId (toLowerCase s))
      else Inl (BSONError ''input must be a 24 character hex string''))"

definition cast_ObjectId :: "string \<Rightarrow> exn + ObjectId" where
  "cast_ObjectId s =
     (if isObjectIdString s then Inr (ObjectId (toLowerCase s))
      else Inl (CastError ''Cast to ObjectId failed''))"

text \<open>
  A path declared with \<open>ref\<close> holds the id of the referenced document, or, after
  \<open>populate\<close>, the document itself (\<open>null\<close> when a single reference points to no
  document).
\<close>

datatype 'a ref = IdRef ObjectId | Doc 'a | Null

text \<open>The free-form \<open>metadata\<close> object, as its entries in insertion order.\<close>

datatype metaval = MStr string | MDate date | MObjectId ObjectId

type_synonym metadata = "(string \<times> metaval) list"


section \<open>Administrator accounts (\<open>admin-user.entity.ts\<close>, \<open>TeamManagementService\<close>)\<close>

datatype AdminUserType = SUPER_ADMIN | ADMIN

datatype AdminUserStatus = ACTIVE | INACTIVE | SUSPENDED

record AdminUser =
  admin_id :: string
  email :: string
  name :: "string option"
  userSub :: "string option"
  adminUserType :: AdminUserType
  adminUserStatus :: AdminUserStatus
  createdAt :: date
  updatedAt :: date

text \<open>
  The primary key is a column of type \<open>uuid\<close> (\<open>@PrimaryGeneratedColumn('uuid')\<close>, on
  PostgreSQL). A string compared with it is read as a uuid by the database: sixteen
  pairs of hexadecimal digits, a hyphen allowed after each group of four digits, braces
  allowed around the whole. \<open>string_to_uuid\<close> gives the thirty-two digits in lower case,
  or \<open>None\<close> where the database rejects the text; two texts name the same key iff
  they give the same digits.
\<close>

fun string_to_uuid_loop :: "nat \<Rightarrow> string \<Rightarrow> (string \<times> string) option" where
  "string_to_uuid_loop 0 src = Some ([], src)"
| "string_to_uuid_loop (Suc k) (a # b # src) =
     (if isHexDigit a \<and> isHexDigit b
      then (case string_to_uuid_loop k
                   (if odd (Suc k) \<and> 0 < k \<and> take 1 src = ''-'' then drop 1 src else src) of
              None \<Rightarrow> None
            | Some (ds, rest) \<Rightarrow> Some (toLowerChar a # toLowerChar b # ds, rest))
      else None)"
| "string_to_uuid_loop (Suc k) src = None"

definition string_to_uuid :: "string \<Rightarrow> string option" where
  "string_to_uuid source =
     (let braces = (take 1 source = ''{'');
          src = (if braces then drop 1 source else source)
      in case string_to_uuid_loop 16 src of
           None \<Rightarrow> None
         | Some (ds, rest) \<Rightarrow>
             if (if braces then rest = ''}'' else rest = []) then Some ds else None)"

text \<open>
  The table \<open>admin_users\<close> is the list of its rows. \<open>findOne({ where: { id } })\<close> gives the
  row with that primary key, and the query fails with a \<open>QueryFailedError\<close> when the
  text is no uuid. \<open>findOne({ where: { email } })\<close> gives the row with that (unique)
  email. \<open>save\<close> of a loaded entity writes the row under the entity's primary key and
  refreshes the \<open>@UpdateDateColumn\<close>.
\<close>

definition findOne_id :: "AdminUser list \<Rightarrow> string \<Rightarrow> exn + AdminUser option" where
  "findOne_id repo i =
     (case string_to_uuid i of
        None \<Rightarrow> Inl (QueryFailedError ''invalid input syntax for type uuid'')
      | Some u \<Rightarrow> Inr (find (\<lambda>a. string_to_uuid (admin_id a) = Some u) repo))"

definition findOne_email :: "AdminUser list \<Rightarrow> string \<Rightarrow> AdminUser option" where
  "findOne_email repo e = find (\<lambda>a. email a = e) repo"

definition repository_save :: "date \<Rightarrow> AdminUser \<Rightarrow> AdminUser list \<Rightarrow> AdminUser list" where
  "repository_save now a repo =
     map (\<lambda>x. if admin_id x = admin_id a then a\<lparr>updatedAt := now\<rparr> else x) repo"

text \<open>
  \<open>suspendAdmin\<close> and \<open>reactivateAdmin\<close> return nothing; their effect is the table, so the
  model returns the table after the call, or the exception thrown. Neither method
  catches anything, so a failed query is thrown on. The calls to the logger and the audit
  record (\<open>fireAuditLog\<close> only logs, and its failure is caught) change no state and are
  left out.
\<close>

definition suspendAdmin ::
  "date \<Rightarrow> AdminUser list \<Rightarrow> string \<Rightarrow> string \<Rightarrow> exn + AdminUser list" where
  "suspendAdmin now repo targetAdminId actorAdminId =
     (if actorAdminId = targetAdminId
      then Inl (ForbiddenException (Str ADMIN_SELF_SUSPEND))
      else case findOne_id repo targetAdminId of
        Inl e \<Rightarrow> Inl e
      | Inr None \<Rightarrow> Inl (NotFoundException (Str ADMIN_NOT_FOUND))
      | Inr (Some targetAdmin) \<Rightarrow>
          if adminUserStatus targetAdmin = SUSPENDED
          then Inl (BadRequestException (Str ADMIN_ALREADY_SUSPENDED))
          else (case findOne_id repo actorAdminId of
                  Inl e \<Rightarrow> Inl e
                | Inr actorAdmin \<Rightarrow>
                    if (case actorAdmin of
                          None \<Rightarrow> False
                        | Some actor \<Rightarrow>
                            adminUserType actor = ADMIN \<and>
                            adminUserType targetAdmin = SUPER_ADMIN)
                    then Inl (ForbiddenException (Str ADMIN_INSUFFICIENT_PERMISSIONS))
                    else Inr (repository_save now
                                (targetAdmin\<lparr>adminUserStatus := SUSPENDED\<rparr>) repo)))"

definition reactivateAdmin ::
  "date \<Rightarrow> AdminUser list \<Rightarrow> string \<Rightarrow> string \<Rightarrow> exn + AdminUser list" where
  "reactivateAdmin now repo targetAdminId actorAdminId =
     (if actorAdminId = targetAdminId
      then Inl (ForbiddenException (Str ADMIN_SELF_REACTIVATE))
      else case findOne_id repo targetAdminId of
        Inl e \<Rightarrow> Inl e
      | Inr None \<Rightarrow> Inl (NotFoundException (Str ADMIN_NOT_FOUND))
      | Inr (Some targetAdmin) \<Rightarrow>
          if adminUserStatus targetAdmin = ACTIVE
          then Inl (BadRequestException (Str ADMIN_ALREADY_ACTIVE))
          else (case findOne_id repo actorAdminId of
                  Inl e \<Rightarrow> Inl e
                | Inr actorAdmin \<Rightarrow>
                    if (case actorAdmin of
                          None \<Rightarrow> False
                        | Some actor \<Rightarrow>
                            adminUserType actor = ADMIN \<and>
                            adminUserType targetAdmin = SUPER_ADMIN)
                    then Inl (ForbiddenException
                                (Str ADMIN_INSUFFICIENT_PERMISSIONS_REACTIVATE))
                    else Inr (repository_save now
                                (targetAdmin\<lparr>adminUserStatus := ACTIVE\<rparr>) repo)))"

subsection \<open>Sample accounts\<close>

definition root_uuid :: string where
  "root_uuid = ''00000000-0000-4000-8000-000000000001''"

definition staff_uuid :: string where
  "staff_uuid = ''00000000-0000-4000-8000-000000000002''"

definition idle_uuid :: string where
  "idle_uuid = ''00000000-0000-4000-8000-000000000003''"

definition root2_uuid :: string where
  "root2_uuid = ''00000000-0000-4000-8000-000000000004''"

text \<open>A well-formed key that no row has, and a text that is no uuid.\<close>

definition ghost_uuid :: string where
  "ghost_uuid = ''00000000-0000-4000-8000-0000000000ff''"

definition no_uuid :: string where
  "no_uuid = ''u-ghost''"

definition root_account :: AdminUser where
  "root_account = \<lparr>admin_id = root_uuid, email = ''root@example.com'', name = Some ''Root'',
     userSub = Some ''sub-root'', adminUserType = SUPER_ADMIN, adminUserStatus = ACTIVE,
     createdAt = 1000, updatedAt = 1000\<rparr>"

definition staff_account :: AdminUser where
  "staff_account = \<lparr>admin_id = staff_uuid, email = ''staff@example.com'', name = Some ''Staff'',
     userSub = Some ''sub-staff'', adminUserType = ADMIN, adminUserStatus = ACTIVE,
     createdAt = 2000, updatedAt = 2000\<rparr>"

definition idle_account :: AdminUser where
  "idle_account = \<lparr>admin_id = idle_uuid, email = ''idle@example.com'', name = None,
     userSub = None, adminUserType = ADMIN, adminUserStatus = SUSPENDED,
     createdAt = 3000, updatedAt = 3500\<rparr>"

definition locked_root_account :: AdminUser where
  "locked_root_account = \<lparr>admin_id = root2_uuid, email = ''root2@example.com'',
     name = Some ''Second root'', userSub = Some ''sub-root2'', adminUserType = SUPER_ADMIN,
     adminUserStatus = SUSPENDED, createdAt = 4000, updatedAt = 4500\<rparr>"

definition sample_accounts :: "AdminUser list" where
  "sample_accounts = [root_account, staff_account, idle_account, locked_root_account]"


section \<open>Permissions (\<open>permissions.schema.ts\<close>, \<open>PermissionService\<close>)\<close>

record Permission =
  oid :: ObjectId
  permissionIdentifier :: "string option"
  name :: string
  description :: "string option"
  resource :: string
  action :: string
  isActive :: bool
  deletedAt :: "date option"
  metadata :: metadata

text \<open>The argument of \<open>PermissionService.create\<close>.\<close>

record PermissionData =
  resource :: string
  action :: string
  name :: string
  description :: "string option"
  permissionIdentifier :: "string option"
  isActive :: "bool option"

text \<open>
  The argument of \<open>PermissionService.update\<close>, a \<open>Partial<Permission>\<close>: each field is
  present or not.
\<close>

record PermissionPatch =
  permissionIdentifier :: "string option"
  name :: "string option"
  description :: "string option"
  resource :: "string option"
  action :: "string option"
  isActive :: "bool option"
  deletedAt :: "date option option"
  metadata :: "metadata option"

definition Permission_findById :: "Permission list \<Rightarrow> ObjectId \<Rightarrow> Permission option" where
  "Permission_findById coll i = find (\<lambda>p. Permission.oid p = i) coll"

text \<open>The validators of the schema, run by \<open>save\<close> before the hooks of the schema.\<close>

definition isIdentifierChar :: "char \<Rightarrow> bool" where
  "isIdentifierChar c = (c \<in> set ''abcdefghijklmnopqrstuvwxyz_'')"

definition identifier_match :: "string \<Rightarrow> bool" where
  \<comment> \<open>\<open>/^[a-z_]+:[a-z_]+$/\<close>\<close>
  "identifier_match s =
     (let a = takeWhile (\<lambda>c. c \<noteq> CHR '':'') s; b = drop (length a) s
      in a \<noteq> [] \<and> list_all isIdentifierChar a \<and>
         (case b of [] \<Rightarrow> False | c # r \<Rightarrow> r \<noteq> [] \<and> list_all isIdentifierChar r))"

definition action_enum :: "string list" where
  "action_enum = [''create'', ''read'', ''update'', ''delete'', ''list'', ''manage'']"

definition Permission_valid :: "Permission \<Rightarrow> bool" where
  "Permission_valid p =
     ((case Permission.permissionIdentifier p of
         None \<Rightarrow> True
       | Some i \<Rightarrow> i = [] \<or> identifier_match i) \<and>
      Permission.name p \<noteq> [] \<and> 3 \<le> length (Permission.name p) \<and>
      length (Permission.name p) \<le> 100 \<and>
      (case Permission.description p of None \<Rightarrow> True | Some d \<Rightarrow> length d \<le> 500) \<and>
      Permission.resource p \<noteq> [] \<and>
      Permission.action p \<noteq> [] \<and> Permission.action p \<in> set action_enum)"

text \<open>
  The hook \<open>PermissionSchema.pre('save')\<close>. An absent and an empty identifier are both
  falsy.
\<close>

definition Permission_pre_save :: "Permission \<Rightarrow> Permission" where
  "Permission_pre_save p =
     (if (case Permission.permissionIdentifier p of None \<Rightarrow> True | Some i \<Rightarrow> i = []) \<and>
         Permission.resource p \<noteq> [] \<and> Permission.action p \<noteq> []
      then p\<lparr>Permission.permissionIdentifier :=
              Some (Permission.resource p @ '':'' @ Permission.action p)\<rparr>
      else p)"

text \<open>The unique index on \<open>permissionIdentifier\<close>: no other document has the same value.\<close>

definition Permission_identifier_taken :: "Permission list \<Rightarrow> Permission \<Rightarrow> bool" where
  "Permission_identifier_taken coll p =
     list_ex (\<lambda>q. Permission.oid q \<noteq> Permission.oid p \<and>
                  Permission.permissionIdentifier q = Permission.permissionIdentifier p) coll"

definition Permission_save_new ::
  "Permission list \<Rightarrow> Permission \<Rightarrow> exn + (Permission list \<times> Permission)" where
  "Permission_save_new coll p =
     (if \<not> Permission_valid p then Inl (ValidationError ''Permission validation failed'')
      else let p' = Permission_pre_save p
           in if Permission_identifier_taken coll p'
              then Inl (MongoServerError ''E11000 duplicate key error'')
              else Inr (coll @ [p'], p'))"

text \<open>
  \<open>PermissionService.create\<close>: \<open>new this.permissionModel(data)\<close> applies the setters and
  the defaults, \<open>save\<close> validates, runs the hook and inserts. \<open>newId\<close> is the fresh \<open>_id\<close>.
\<close>

definition PermissionService_create ::
  "ObjectId \<Rightarrow> Permission list \<Rightarrow> PermissionData \<Rightarrow> exn + (Permission list \<times> Permission)" where
  "PermissionService_create newId coll data =
     Permission_save_new coll
       \<lparr>Permission.oid = newId,
        permissionIdentifier =
          map_option (\<lambda>s. toLowerCase (trim s)) (PermissionData.permissionIdentifier data),
        name = trim (PermissionData.name data),
        description = map_option trim (PermissionData.description data),
        resource = toLowerCase (trim (PermissionData.resource data)),
        action = toLowerCase (trim (PermissionData.action data)),
        isActive = (case PermissionData.isActive data of None \<Rightarrow> True | Some b \<Rightarrow> b),
        deletedAt = None,
        metadata = []\<rparr>"

text \<open>
  \<open>PermissionService.update\<close> is \<open>findByIdAndUpdate(id, data, { new: true })\<close>: the fields
  present in \<open>data\<close> are set (through the setters), no \<open>save\<close> hook and no validator runs,
  and the updated document is returned, or \<open>null\<close> when the id matches none. The
  unique index rejects a new identifier that another document has.
\<close>

definition Permission_apply_patch :: "PermissionPatch \<Rightarrow> Permission \<Rightarrow> Permission" where
  "Permission_apply_patch d p =
     \<lparr>Permission.oid = Permission.oid p,
      permissionIdentifier =
        (case PermissionPatch.permissionIdentifier d of
           None \<Rightarrow> Permission.permissionIdentifier p
         | Some s \<Rightarrow> Some (toLowerCase (trim s))),
      name = (case PermissionPatch.name d of None \<Rightarrow> Permission.name p | Some s \<Rightarrow> trim s),
      description =
        (case PermissionPatch.description d of
           None \<Rightarrow> Permission.description p
         | Some s \<Rightarrow> Some (trim s)),
      resource =
        (case PermissionPatch.resource d of
           None \<Rightarrow> Permission.resource p
         | Some s \<Rightarrow> toLowerCase (trim s)),
      action =
        (case PermissionPatch.action d of
           None \<Rightarrow> Permission.action p
         | Some s \<Rightarrow> toLowerCase (trim s)),
      isActive =
        (case PermissionPatch.isActive d of None \<Rightarrow> Permission.isActive p | Some b \<Rightarrow> b),
      deletedAt =
        (case PermissionPatch.deletedAt d of None \<Rightarrow> Permission.deletedAt p | Some v \<Rightarrow> v),
      metadata =
        (case PermissionPatch.metadata d of None \<Rightarrow> Permission.metadata p | Some m \<Rightarrow> m)\<rparr>"

definition Permission_replace :: "Permission \<Rightarrow> Permission list \<Rightarrow> Permission list" where
  "Permission_replace d coll =
     map (\<lambda>x. if Permission.oid x = Permission.oid d then d else x) coll"

definition PermissionService_update ::
  "Permission list \<Rightarrow> string \<Rightarrow> PermissionPatch \<Rightarrow>
   exn + (Permission list \<times> Permission option)" where
  "PermissionService_update coll id' data =
     (case cast_ObjectId id' of
        Inl e \<Rightarrow> Inl e
      | Inr i \<Rightarrow>
          (case Permission_findById coll i of
             None \<Rightarrow> Inr (coll, None)
           | Some p \<Rightarrow>
               let p' = Permission_apply_patch data p
               in if Permission.permissionIdentifier p' \<noteq> Permission.permissionIdentifier p \<and>
                     Permission_identifier_taken coll p'
                  then Inl (MongoServerError ''E11000 duplicate key error'')
                  else Inr (Permission_replace p' coll, Some p')))"


section \<open>Policies and roles (\<open>policy.schema.ts\<close>, \<open>PolicyService\<close>, \<open>RoleService\<close>)\<close>

record Policy =
  oid :: ObjectId
  policyIdentifier :: string
  name :: string
  description :: "string option"
  permissions :: "Permission ref list"
  priority :: int
  isActive :: bool
  isSystem :: bool
  deletedAt :: "date option"
  category :: string
  metadata :: metadata

record Role =
  oid :: ObjectId
  roleIdentifier :: string
  name :: string
  description :: "string option"
  policies :: "Policy ref list"
  level :: int
  isActive :: bool
  isSystem :: bool
  isDefault :: bool
  deletedAt :: "date option"
  metadata :: metadata

text \<open>\<open>findById\<close> gives the document with that \<open>_id\<close>.\<close>

definition Policy_findById :: "Policy list \<Rightarrow> ObjectId \<Rightarrow> Policy option" where
  "Policy_findById coll i = find (\<lambda>p. Policy.oid p = i) coll"

definition Role_findById :: "Role list \<Rightarrow> ObjectId \<Rightarrow> Role option" where
  "Role_findById coll i = find (\<lambda>r. Role.oid r = i) coll"

text \<open>
  The validators of the two schemas: the identifier is required and matches
  \<open>/^[a-z0-9-_]+$/\<close>, the name is required and has 3 to 100 characters, the description
  has at most 1000, \<open>priority\<close> and \<open>level\<close> lie between 0 and 100, the category is one
  of the enumeration. The validator of the array (\<open>v.length >= 0\<close>) holds of every array.
\<close>

definition isSlugChar :: "char \<Rightarrow> bool" where
  "isSlugChar c = (c \<in> set ''abcdefghijklmnopqrstuvwxyz0123456789-_'')"

definition category_enum :: "string list" where
  "category_enum = [''user'', ''admin'', ''moderator'', ''custom'']"

definition Policy_valid :: "Policy \<Rightarrow> bool" where
  "Policy_valid p =
     (Policy.policyIdentifier p \<noteq> [] \<and> list_all isSlugChar (Policy.policyIdentifier p) \<and>
      Policy.name p \<noteq> [] \<and> 3 \<le> length (Policy.name p) \<and> length (Policy.name p) \<le> 100 \<and>
      (case Policy.description p of None \<Rightarrow> True | Some d \<Rightarrow> length d \<le> 1000) \<and>
      0 \<le> length (Policy.permissions p) \<and>
      0 \<le> Policy.priority p \<and> Policy.priority p \<le> 100 \<and>
      Policy.category p \<in> set category_enum)"

definition Role_valid :: "Role \<Rightarrow> bool" where
  "Role_valid r =
     (Role.roleIdentifier r \<noteq> [] \<and> list_all isSlugChar (Role.roleIdentifier r) \<and>
      Role.name r \<noteq> [] \<and> 3 \<le> length (Role.name r) \<and> length (Role.name r) \<le> 100 \<and>
      (case Role.description r of None \<Rightarrow> True | Some d \<Rightarrow> length d \<le> 1000) \<and>
      0 \<le> length (Role.policies r) \<and>
      0 \<le> Role.level r \<and> Role.level r \<le> 100)"

text \<open>
  \<open>save\<close> of a loaded document validates the document, all its paths, and fails with a
  \<open>ValidationError\<close> when a validator rejects it; otherwise it writes the document back
  under its \<open>_id\<close>. A stored document can fail the validators, since \<open>update\<close>
  (\<open>findByIdAndUpdate\<close>) runs none.
\<close>

definition Policy_write :: "Policy \<Rightarrow> Policy list \<Rightarrow> Policy list" where
  "Policy_write d coll = map (\<lambda>x. if Policy.oid x = Policy.oid d then d else x) coll"

definition Policy_save :: "Policy \<Rightarrow> Policy list \<Rightarrow> exn + (Policy list \<times> Policy)" where
  "Policy_save d coll =
     (if \<not> Policy_valid d then Inl (ValidationError ''Policy validation failed'')
      else Inr (Policy_write d coll, d))"

definition Role_write :: "Role \<Rightarrow> Role list \<Rightarrow> Role list" where
  "Role_write d coll = map (\<lambda>x. if Role.oid x = Role.oid d then d else x) coll"

definition Role_save :: "Role \<Rightarrow> Role list \<Rightarrow> exn + (Role list \<times> Role)" where
  "Role_save d coll =
     (if \<not> Role_valid d then Inl (ValidationError ''Role validation failed'')
      else Inr (Role_write d coll, d))"

text \<open>The collection after a call: as before when the call threw.\<close>

definition collection_after :: "'c \<Rightarrow> exn + ('c \<times> 'r) \<Rightarrow> 'c" where
  "collection_after coll result = (case result of Inl e \<Rightarrow> coll | Inr (coll', r) \<Rightarrow> coll')"

text \<open>
  \<open>includes\<close> on an array of ids of a loaded document compares ids by value (the
  document array turns an \<open>ObjectId\<close> argument into its string and compares loosely),
  as the filter of \<open>removePermission\<close> does with \<open>toString()\<close>.
\<close>

definition array_includes :: "'a ref list \<Rightarrow> ObjectId \<Rightarrow> bool" where
  "array_includes arr i = list_ex (\<lambda>r. r = IdRef i) arr"

subsection \<open>Methods of \<open>PolicySchema\<close>\<close>

definition Policy_softDelete ::
  "date \<Rightarrow> Policy list \<Rightarrow> Policy \<Rightarrow> exn + (Policy list \<times> Policy)" where
  "Policy_softDelete now coll this =
     (if Policy.isSystem this then Inl (Error ''Cannot delete system policies'')
      else Policy_save (this\<lparr>Policy.deletedAt := Some now, Policy.isActive := False\<rparr>) coll)"

definition Policy_restore :: "Policy list \<Rightarrow> Policy \<Rightarrow> exn + (Policy list \<times> Policy)" where
  "Policy_restore coll this =
     Policy_save (this\<lparr>Policy.deletedAt := None, Policy.isActive := True\<rparr>) coll"

definition Policy_addPermission ::
  "Policy list \<Rightarrow> Policy \<Rightarrow> ObjectId \<Rightarrow> exn + (Policy list \<times> Policy)" where
  "Policy_addPermission coll this permissionId =
     Policy_save
       (if \<not> array_includes (Policy.permissions this) permissionId
        then this\<lparr>Policy.permissions := Policy.permissions this @ [IdRef permissionId]\<rparr>
        else this)
       coll"

definition Policy_removePermission ::
  "Policy list \<Rightarrow> Policy \<Rightarrow> ObjectId \<Rightarrow> exn + (Policy list \<times> Policy)" where
  "Policy_removePermission coll this permissionId =
     Policy_save
       (this\<lparr>Policy.permissions :=
               filter (\<lambda>r. r \<noteq> IdRef permissionId) (Policy.permissions this)\<rparr>)
       coll"

subsection \<open>Methods of \<open>RoleSchema\<close>\<close>

definition Role_softDelete ::
  "date \<Rightarrow> Role list \<Rightarrow> Role \<Rightarrow> exn + (Role list \<times> Role)" where
  "Role_softDelete now coll this =
     (if Role.isSystem this then Inl (Error ''Cannot delete system roles'')
      else if Role.isDefault this then Inl (Error ''Cannot delete default role'')
      else Role_save (this\<lparr>Role.deletedAt := Some now, Role.isActive := False\<rparr>) coll)"

definition Role_restore :: "Role list \<Rightarrow> Role \<Rightarrow> exn + (Role list \<times> Role)" where
  "Role_restore coll this =
     Role_save (this\<lparr>Role.deletedAt := None, Role.isActive := True\<rparr>) coll"

definition Role_addPolicy ::
  "Role list \<Rightarrow> Role \<Rightarrow> ObjectId \<Rightarrow> exn + (Role list \<times> Role)" where
  "Role_addPolicy coll this policyId =
     Role_save
       (if \<not> array_includes (Role.policies this) policyId
        then this\<lparr>Role.policies := Role.policies this @ [IdRef policyId]\<rparr>
        else this)
       coll"

definition Role_removePolicy ::
  "Role list \<Rightarrow> Role \<Rightarrow> ObjectId \<Rightarrow> exn + (Role list \<times> Role)" where
  "Role_removePolicy coll this policyId =
     Role_save
       (this\<lparr>Role.policies := filter (\<lambda>r. r \<noteq> IdRef policyId) (Role.policies this)\<rparr>)
       coll"

subsection \<open>\<open>populate\<close>\<close>

text \<open>
  \<open>populate\<close> of an array path replaces each id by the document it names and drops the
  ids that name none; of a single path it replaces the id by the document or by \<open>null\<close>.
\<close>

definition populate_permissions :: "Permission list \<Rightarrow> Policy \<Rightarrow> Policy" where
  "populate_permissions perms p =
     p\<lparr>Policy.permissions :=
         concat (map (\<lambda>r. case r of
                      IdRef i \<Rightarrow> (case Permission_findById perms i of
                                 None \<Rightarrow> []
                               | Some d \<Rightarrow> [Doc d])
                    | Doc d \<Rightarrow> [Doc d]
                    | Null \<Rightarrow> [Null])
                 (Policy.permissions p))\<rparr>"

text \<open>\<open>populate({ path: 'policies', populate: { path: 'permissions' } })\<close>\<close>

definition populate_policies_permissions ::
  "Permission list \<Rightarrow> Policy list \<Rightarrow> Role \<Rightarrow> Role" where
  "populate_policies_permissions perms pols r =
     r\<lparr>Role.policies :=
         concat (map (\<lambda>x. case x of
                      IdRef i \<Rightarrow> (case Policy_findById pols i of
                                 None \<Rightarrow> []
                               | Some d \<Rightarrow> [Doc (populate_permissions perms d)])
                    | Doc d \<Rightarrow> [Doc (populate_permissions perms d)]
                    | Null \<Rightarrow> [Null])
                 (Role.policies r))\<rparr>"

subsection \<open>\<open>PolicyService\<close> and \<open>RoleService\<close>\<close>

definition PolicyService_findAll :: "Permission list \<Rightarrow> Policy list \<Rightarrow> Policy list" where
  "PolicyService_findAll perms coll =
     sort_key (\<lambda>p. - Policy.priority p)
       (map (populate_permissions perms) (filter (\<lambda>p. Policy.deletedAt p = None) coll))"

definition PolicyService_addPermission ::
  "Policy list \<Rightarrow> string \<Rightarrow> string \<Rightarrow> exn + (Policy list \<times> Policy option)" where
  "PolicyService_addPermission coll policyId permissionId =
     (case cast_ObjectId policyId of
        Inl e \<Rightarrow> Inl e
      | Inr i \<Rightarrow>
          (case Policy_findById coll i of
             None \<Rightarrow> Inr (coll, None)
           | Some policy \<Rightarrow>
               (case new_ObjectId permissionId of
                  Inl e \<Rightarrow> Inl e
                | Inr pid \<Rightarrow>
                    (case Policy_addPermission coll policy pid of
                       Inl e \<Rightarrow> Inl e
                     | Inr (coll', policy') \<Rightarrow> Inr (coll', Some policy')))))"

definition PolicyService_softDelete ::
  "date \<Rightarrow> Policy list \<Rightarrow> string \<Rightarrow> exn + (Policy list \<times> Policy option)" where
  "PolicyService_softDelete now coll id' =
     (case cast_ObjectId id' of
        Inl e \<Rightarrow> Inl e
      | Inr i \<Rightarrow>
          (case Policy_findById coll i of
             None \<Rightarrow> Inr (coll, None)
           | Some policy \<Rightarrow>
               (case Policy_softDelete now coll policy of
                  Inl e \<Rightarrow> Inl e
                | Inr (coll', policy') \<Rightarrow> Inr (coll', Some policy'))))"

definition RoleService_findAll ::
  "Permission list \<Rightarrow> Policy list \<Rightarrow> Role list \<Rightarrow> Role list" where
  "RoleService_findAll perms pols coll =
     sort_key (\<lambda>r. - Role.level r)
       (map (populate_policies_permissions perms pols)
          (filter (\<lambda>r. Role.deletedAt r = None) coll))"

definition RoleService_addPolicy ::
  "Role list \<Rightarrow> string \<Rightarrow> string \<Rightarrow> exn + (Role list \<times> Role option)" where
  "RoleService_addPolicy coll roleId policyId =
     (case cast_ObjectId roleId of
        Inl e \<Rightarrow> Inl e
      | Inr i \<Rightarrow>
          (case Role_findById coll i of
             None \<Rightarrow> Inr (coll, None)
           | Some role \<Rightarrow>
               (case new_ObjectId policyId of
                  Inl e \<Rightarrow> Inl e
                | Inr pid \<Rightarrow>
                    (case Role_addPolicy coll role pid of
                       Inl e \<Rightarrow> Inl e
                     | Inr (coll', role') \<Rightarrow> Inr (coll', Some role')))))"

definition RoleService_softDelete ::
  "date \<Rightarrow> Role list \<Rightarrow> string \<Rightarrow> exn + (Role list \<times> Role option)" where
  "RoleService_softDelete now coll id' =
     (case cast_ObjectId id' of
        Inl e \<Rightarrow> Inl e
      | Inr i \<Rightarrow>
          (case Role_findById coll i of
             None \<Rightarrow> Inr (coll, None)
           | Some role \<Rightarrow>
               (case Role_softDelete now coll role of
                  Inl e \<Rightarrow> Inl e
                | Inr (coll', role') \<Rightarrow> Inr (coll', Some role'))))"


section \<open>Assignments (\<open>user_roles.schema.ts\<close>, \<open>UserRoleService\<close>)\<close>

text \<open>
  A document of the collection \<open>user_roles\<close>. The schema declares no path \<open>expiresAt\<close>.
  The field is here because the queries of the schema filter on it, so a stored document
  may carry it; the methods of this repository never write it (see \<open>assignRole\<close>).
\<close>

record UserRole =
  oid :: ObjectId
  userId :: string
  roleId :: "Role ref"
  isActive :: bool
  assignedBy :: "string option"
  assignedAt :: date
  reason :: "string option"
  deletedAt :: "date option"
  metadata :: metadata
  expiresAt :: "date option"

text \<open>The argument of \<open>UserRoleService.assignRole\<close>.\<close>

record AssignRoleData =
  userId :: string
  roleId :: string
  assignedBy :: "string option"
  expiresAt :: "date option"
  reason :: "string option"

text \<open>
  \<open>save\<close> validates (\<open>userId\<close> is required, \<open>reason\<close> has at most 500 characters) and
  the write is rejected by the unique partial index on \<open>(userId, roleId)\<close> among the
  documents whose \<open>deletedAt\<close> is null.
\<close>

definition UserRole_valid :: "UserRole \<Rightarrow> bool" where
  "UserRole_valid d =
     (UserRole.userId d \<noteq> [] \<and>
      (case UserRole.reason d of None \<Rightarrow> True | Some s \<Rightarrow> length s \<le> 500))"

definition UserRole_index_violated :: "UserRole list \<Rightarrow> UserRole \<Rightarrow> bool" where
  "UserRole_index_violated coll d =
     (UserRole.deletedAt d = None \<and>
      list_ex (\<lambda>x. UserRole.oid x \<noteq> UserRole.oid d \<and>
                   UserRole.userId x = UserRole.userId d \<and>
                   UserRole.roleId x = UserRole.roleId d \<and>
                   UserRole.deletedAt x = None) coll)"

definition UserRole_save :: "UserRole \<Rightarrow> UserRole list \<Rightarrow> exn + (UserRole list \<times> UserRole)" where
  "UserRole_save d coll =
     (if \<not> UserRole_valid d then Inl (ValidationError ''UserRole validation failed'')
      else if UserRole_index_violated coll d
      then Inl (MongoServerError ''E11000 duplicate key error'')
      else Inr (map (\<lambda>x. if UserRole.oid x = UserRole.oid d then d else x) coll, d))"

definition UserRole_insert :: "UserRole \<Rightarrow> UserRole list \<Rightarrow> exn + (UserRole list \<times> UserRole)" where
  "UserRole_insert d coll =
     (if \<not> UserRole_valid d then Inl (ValidationError ''UserRole validation failed'')
      else if UserRole_index_violated coll d
      then Inl (MongoServerError ''E11000 duplicate key error'')
      else Inr (coll @ [d], d))"

text \<open>
  The path \<open>roleId\<close> is declared with \<open>type: Types.ObjectId\<close>, the class of the values
  and not the schema type, so it is a path of any type and a value given for it in a
  filter is not cast. An \<open>ObjectId\<close> in a filter equals the stored \<open>ObjectId\<close> of the
  same value; a string equals no stored \<open>ObjectId\<close>. The writers of the collection
  (\<open>assignRole\<close>, \<open>assignRoleToUser\<close>) store \<open>new Types.ObjectId(roleId)\<close>, so the stored
  values are \<open>ObjectId\<close>s.
\<close>

datatype filter_value = FilterObjectId ObjectId | FilterString string

definition roleId_matches :: "'a ref \<Rightarrow> filter_value \<Rightarrow> bool" where
  "roleId_matches stored q =
     (case q of
        FilterObjectId i \<Rightarrow> stored = IdRef i
      | FilterString s \<Rightarrow> False)"

subsection \<open>Methods and statics of \<open>UserRoleSchema\<close>\<close>

text \<open>
  \<open>UserRoleSchema.methods.revoke\<close>. Both calls of \<open>new Date()\<close> read \<open>now\<close>. The spread
  \<open>{ ...metadata, revokedBy, revokedAt }\<close> keeps the entries of \<open>metadata\<close> and sets the two
  keys.
\<close>

definition UserRole_revoke ::
  "date \<Rightarrow> UserRole list \<Rightarrow> UserRole \<Rightarrow> ObjectId option \<Rightarrow>
   exn + (UserRole list \<times> UserRole)" where
  "UserRole_revoke now coll this revokedBy =
     UserRole_save
       (this\<lparr>UserRole.deletedAt := Some now,
             UserRole.isActive := False,
             UserRole.metadata :=
               (case revokedBy of
                  None \<Rightarrow> UserRole.metadata this
                | Some b \<Rightarrow>
                    AList.update ''revokedAt'' (MDate now)
                      (AList.update ''revokedBy'' (MObjectId b) (UserRole.metadata this)))\<rparr>)
       coll"

definition UserRole_restore :: "UserRole list \<Rightarrow> UserRole \<Rightarrow> exn + (UserRole list \<times> UserRole)" where
  "UserRole_restore coll this =
     UserRole_save (this\<lparr>UserRole.deletedAt := None, UserRole.isActive := True\<rparr>) coll"

text \<open>\<open>populate('roleId')\<close>: the role document as stored, its \<open>policies\<close> untouched.\<close>

definition populate_roleId :: "Role list \<Rightarrow> UserRole \<Rightarrow> UserRole" where
  "populate_roleId roles u =
     u\<lparr>UserRole.roleId :=
         (case UserRole.roleId u of
            IdRef i \<Rightarrow> (case Role_findById roles i of None \<Rightarrow> Null | Some r \<Rightarrow> Doc r)
          | Doc r \<Rightarrow> Doc r
          | Null \<Rightarrow> Null)\<rparr>"

text \<open>
  The filter shared by the three statics:
  \<open>isActive: true, deletedAt: null, $or: [{ expiresAt: null }, { expiresAt: { $gt: new Date() } }]\<close>.
\<close>

definition active_unexpired :: "date \<Rightarrow> UserRole \<Rightarrow> bool" where
  "active_unexpired now u =
     (UserRole.isActive u = True \<and> UserRole.deletedAt u = None \<and>
      (UserRole.expiresAt u = None \<or>
       (case UserRole.expiresAt u of None \<Rightarrow> False | Some e \<Rightarrow> now < e)))"

definition getActiveUserRoles :: "date \<Rightarrow> Role list \<Rightarrow> UserRole list \<Rightarrow> string \<Rightarrow> UserRole list" where
  "getActiveUserRoles now roles coll userId' =
     map (populate_roleId roles)
       (filter (\<lambda>u. UserRole.userId u = userId' \<and> active_unexpired now u) coll)"

definition hasRole :: "date \<Rightarrow> UserRole list \<Rightarrow> string \<Rightarrow> ObjectId \<Rightarrow> bool" where
  "hasRole now coll userId' roleId' =
     (0 < length (filter (\<lambda>u. UserRole.userId u = userId' \<and>
                               roleId_matches (UserRole.roleId u) (FilterObjectId roleId') \<and>
                               active_unexpired now u) coll))"

subsection \<open>\<open>UserRoleService\<close>\<close>

text \<open>
  \<open>assignRole\<close>. \<open>now\<close> is the default of \<open>assignedAt\<close> and \<open>newId\<close> the \<open>_id\<close> of a
  document created by the call. \<open>findOne\<close> gives the first document of the pair, soft
  deleted or not. Since the schema has no path \<open>expiresAt\<close>, the value given to the
  constructor is dropped, and the property set on the document found is not among the
  paths that \<open>save\<close> writes: the stored \<open>expiresAt\<close> is never changed.
\<close>

definition assignRole ::
  "date \<Rightarrow> ObjectId \<Rightarrow> UserRole list \<Rightarrow> AssignRoleData \<Rightarrow>
   exn + (UserRole list \<times> UserRole)" where
  "assignRole now newId coll data =
     (case new_ObjectId (AssignRoleData.roleId data) of
        Inl e \<Rightarrow> Inl e
      | Inr roleObjectId \<Rightarrow>
          (case find (\<lambda>u. UserRole.userId u = AssignRoleData.userId data \<and>
                          roleId_matches (UserRole.roleId u) (FilterObjectId roleObjectId))
                  coll of
             Some existingAssignment \<Rightarrow>
               if UserRole.deletedAt existingAssignment \<noteq> None
               then UserRole_save
                      (existingAssignment
                         \<lparr>UserRole.deletedAt := None,
                          UserRole.isActive := True,
                          UserRole.assignedBy := AssignRoleData.assignedBy data,
                          UserRole.reason :=
                            Some (trim (case AssignRoleData.reason data of
                                          None \<Rightarrow> ''Role restored''
                                        | Some s \<Rightarrow> if s = [] then ''Role restored'' else s))\<rparr>)
                      coll
               else Inr (coll, existingAssignment)
           | None \<Rightarrow>
               UserRole_insert
                 \<lparr>UserRole.oid = newId,
                  userId = AssignRoleData.userId data,
                  roleId = IdRef roleObjectId,
                  isActive = True,
                  assignedBy = AssignRoleData.assignedBy data,
                  assignedAt = now,
                  reason = map_option trim (AssignRoleData.reason data),
                  deletedAt = None,
                  metadata = [],
                  expiresAt = None\<rparr>
                 coll))"

definition getUserRoles :: "date \<Rightarrow> Role list \<Rightarrow> UserRole list \<Rightarrow> string \<Rightarrow> UserRole list" where
  "getUserRoles now roles coll userId' = getActiveUserRoles now roles coll userId'"

text \<open>
  \<open>revokeRole\<close>. The filter is \<open>{ userId, roleId, isActive: true }\<close> with \<open>roleId\<close> the
  string the caller gave (\<open>roleId as any\<close>). \<open>revokedBy\<close> is turned into an \<open>ObjectId\<close>
  only once a document is found, and only when it is given and not empty.
\<close>

definition revokeRole ::
  "date \<Rightarrow> UserRole list \<Rightarrow> string \<Rightarrow> string \<Rightarrow> string option \<Rightarrow>
   exn + (UserRole list \<times> UserRole option)" where
  "revokeRole now coll userId' roleId' revokedBy =
     (case find (\<lambda>u. UserRole.userId u = userId' \<and>
                     roleId_matches (UserRole.roleId u) (FilterString roleId') \<and>
                     UserRole.isActive u = True) coll of
        None \<Rightarrow> Inr (coll, None)
      | Some userRole \<Rightarrow>
          (case (case revokedBy of
                   None \<Rightarrow> Inr None
                 | Some s \<Rightarrow> if s = [] then Inr None
                             else map_sum (\<lambda>e. e) Some (new_ObjectId s)) of
             Inl e \<Rightarrow> Inl e
           | Inr by' \<Rightarrow>
               (case UserRole_revoke now coll userRole by' of
                  Inl e \<Rightarrow> Inl e
                | Inr (coll', userRole') \<Rightarrow> Inr (coll', Some userRole'))))"

text \<open>
  \<open>extendExpiry\<close> has the filter of \<open>revokeRole\<close>. On a document found it calls the
  method \<open>extendExpiry\<close>; the schema defines the methods \<open>revoke\<close> and \<open>restore\<close> and no
  other, so that call would throw a \<open>TypeError\<close>.
\<close>

definition extendExpiry ::
  "UserRole list \<Rightarrow> string \<Rightarrow> string \<Rightarrow> int \<Rightarrow> exn + (UserRole list \<times> UserRole option)" where
  "extendExpiry coll userId' roleId' days =
     (case find (\<lambda>u. UserRole.userId u = userId' \<and>
                     roleId_matches (UserRole.roleId u) (FilterString roleId') \<and>
                     UserRole.isActive u = True) coll of
        None \<Rightarrow> Inr (coll, None)
      | Some userRole \<Rightarrow> Inl (TypeError ''userRole.extendExpiry is not a function''))"

subsection \<open>The words of the specification\<close>

text \<open>
  An assignment is effective iff it is active, not soft deleted, and its expiry is null
  or in the future.
\<close>

definition effective :: "date \<Rightarrow> UserRole \<Rightarrow> bool" where
  "effective now a =
     (UserRole.isActive a \<and> UserRole.deletedAt a = None \<and>
      (case UserRole.expiresAt a of None \<Rightarrow> True | Some e \<Rightarrow> now < e))"

definition effective_for :: "date \<Rightarrow> string \<Rightarrow> ObjectId \<Rightarrow> UserRole \<Rightarrow> bool" where
  "effective_for now userId' roleId' a =
     (UserRole.userId a = userId' \<and> UserRole.roleId a = IdRef roleId' \<and> effective now a)"

definition has_effective :: "date \<Rightarrow> UserRole list \<Rightarrow> string \<Rightarrow> ObjectId \<Rightarrow> bool" where
  "has_effective now coll userId' roleId' = list_ex (effective_for now userId' roleId') coll"

text \<open>
  An assignment is fully expanded when its role is a document whose policies are all
  documents whose permissions are all documents.
\<close>

definition is_Doc :: "'a ref \<Rightarrow> bool" where
  "is_Doc r = (case r of Doc d \<Rightarrow> True | IdRef i \<Rightarrow> False | Null \<Rightarrow> False)"

definition policy_expanded :: "Policy ref \<Rightarrow> bool" where
  "policy_expanded r =
     (case r of Doc p \<Rightarrow> list_all is_Doc (Policy.permissions p) | IdRef i \<Rightarrow> False | Null \<Rightarrow> False)"

definition fully_expanded :: "UserRole \<Rightarrow> bool" where
  "fully_expanded a =
     (case UserRole.roleId a of
        Doc r \<Rightarrow> list_all policy_expanded (Role.policies r)
      | IdRef i \<Rightarrow> False
      | Null \<Rightarrow> False)"


section \<open>Account creation and password reset (\<open>TeamManagementService\<close>)\<close>

text \<open>
  What \<open>axios.post\<close> throws: the error's \<open>code\<close>, and the response when one was received,
  with its status and the \<open>message\<close> of its body (\<open>responseData?.message\<close>).
\<close>

record AxiosResponse =
  status :: int
  message :: "message option"

record AxiosError =
  code :: "string option"
  response :: "AxiosResponse option"

text \<open>\<open>m || d\<close>: an absent message and the empty string are falsy, an array is truthy.\<close>

definition message_or :: "message option \<Rightarrow> string \<Rightarrow> message" where
  "message_or m d =
     (case m of
        None \<Rightarrow> Str d
      | Some (Str s) \<Rightarrow> if s = [] then Str d else Str s
      | Some (Arr xs) \<Rightarrow> Arr xs)"

fun join :: "string \<Rightarrow> string list \<Rightarrow> string" where
  "join sep [] = []"
| "join sep [x] = x"
| "join sep (x # y # ys) = x @ sep @ join sep (y # ys)"

definition statusCode :: "AxiosError \<Rightarrow> int option" where
  "statusCode e = map_option AxiosResponse.status (AxiosError.response e)"

definition responseMessage :: "AxiosError \<Rightarrow> message option" where
  "responseMessage e =
     (case AxiosError.response e of None \<Rightarrow> None | Some r \<Rightarrow> AxiosResponse.message r)"

definition validationMessage :: "AxiosError \<Rightarrow> message" where
  "validationMessage e =
     (case responseMessage e of
        Some (Arr xs) \<Rightarrow> Str (join '', '' xs)
      | m \<Rightarrow> message_or m AUTH_SERVICE_VALIDATION_ERROR)"

text \<open>The \<open>catch (authError)\<close> block of \<open>createAdmin\<close>.\<close>

definition createAdmin_authError :: "AxiosError \<Rightarrow> exn" where
  "createAdmin_authError axiosError =
     (if AxiosError.code axiosError = Some ''ECONNREFUSED'' \<or>
         AxiosError.code axiosError = Some ''ETIMEDOUT''
      then InternalServerErrorException (Str AUTH_SERVICE_UNAVAILABLE)
      else if statusCode axiosError = Some 409
      then ConflictException
             (message_or (responseMessage axiosError) ''User already exists in auth service'')
      else if statusCode axiosError = Some 400
      then BadRequestException (validationMessage axiosError)
      else InternalServerErrorException
             (message_or (responseMessage axiosError) AUTH_SERVICE_SIGNUP_FAILED))"

text \<open>The \<open>catch (error)\<close> block of \<open>sendResetLink\<close>.\<close>

definition sendResetLink_error :: "AxiosError \<Rightarrow> exn" where
  "sendResetLink_error axiosError =
     (if AxiosError.code axiosError = Some ''ECONNREFUSED'' \<or>
         AxiosError.code axiosError = Some ''ETIMEDOUT''
      then InternalServerErrorException (Str AUTH_SERVICE_UNAVAILABLE)
      else if statusCode axiosError = Some 404
      then NotFoundException (message_or (responseMessage axiosError) USER_NOT_FOUND)
      else if statusCode axiosError = Some 400
      then BadRequestException (validationMessage axiosError)
      else InternalServerErrorException
             (message_or (responseMessage axiosError) RESET_LINK_SEND_FAILED))"

text \<open>
  \<open>sendResetLink\<close>: the outcome of the request is the parameter \<open>posted\<close>, the error thrown
  by \<open>axios.post\<close> or the status of the response.
\<close>

definition sendResetLink :: "(AxiosError + int) \<Rightarrow> exn + unit" where
  "sendResetLink posted =
     (case posted of
        Inl axiosError \<Rightarrow> Inl (sendResetLink_error axiosError)
      | Inr st \<Rightarrow> Inr ())"

text \<open>
  The private \<open>assignRoleToUser\<close>: every failure inside is caught and logged, so the
  result is the collection, changed or not.
\<close>

definition assignRoleToUser ::
  "date \<Rightarrow> ObjectId \<Rightarrow> UserRole list \<Rightarrow> string \<Rightarrow> string \<Rightarrow> UserRole list" where
  "assignRoleToUser now newId coll userId' roleId' =
     (case new_ObjectId roleId' of
        Inl e \<Rightarrow> coll
      | Inr r \<Rightarrow>
          (case find (\<lambda>u. UserRole.userId u = userId' \<and>
                          roleId_matches (UserRole.roleId u) (FilterObjectId r) \<and>
                          UserRole.isActive u = True \<and> UserRole.deletedAt u = None) coll of
             Some existingRole \<Rightarrow> coll
           | None \<Rightarrow>
               (case UserRole_insert
                       \<lparr>UserRole.oid = newId, userId = userId', roleId = IdRef r, isActive = True,
                        assignedBy = None, assignedAt = now, reason = None, deletedAt = None,
                        metadata = [], expiresAt = None\<rparr>
                       coll of
                  Inl e \<Rightarrow> coll
                | Inr (coll', d) \<Rightarrow> coll')))"

text \<open>
  The argument of \<open>createAdmin\<close>. The type is a string, since the service normalises the
  spelling \<open>superadmin\<close> that the enumeration does not have.
\<close>

record CreateAdminDto =
  email :: string
  name :: string
  adminUserType :: "string option"
  adminUserStatus :: "AdminUserStatus option"
  roleId :: "string option"

definition parse_AdminUserType :: "string \<Rightarrow> AdminUserType option" where
  "parse_AdminUserType s =
     (if s = ''super_admin'' then Some SUPER_ADMIN
      else if s = ''admin'' then Some ADMIN
      else None)"

text \<open>
  The outer \<open>catch\<close> of \<open>createAdmin\<close> throws the NestJS exceptions again and turns
  everything else into \<open>ADMIN_CREATION_FAILED\<close>.
\<close>

definition createAdmin_rethrow :: "exn \<Rightarrow> exn" where
  "createAdmin_rethrow error =
     (case error of
        ConflictException m \<Rightarrow> error
      | InternalServerErrorException m \<Rightarrow> error
      | BadRequestException m \<Rightarrow> error
      | NotFoundException m \<Rightarrow> error
      | ForbiddenException m \<Rightarrow> error
      | _ \<Rightarrow> InternalServerErrorException (Str ADMIN_CREATION_FAILED))"

text \<open>
  \<open>createAdmin\<close>. The outcome of the sign-up request is the parameter \<open>posted\<close>: the error
  thrown by \<open>axios.post\<close>, or the \<open>userSub\<close> of the response. \<open>newAdminId\<close> is the
  generated primary key, \<open>newId\<close> the \<open>_id\<close> of an assignment created for \<open>roleId\<close>. The
  column \<open>adminUserType\<close> takes the values of the enumeration only.
\<close>

definition createAdmin ::
  "date \<Rightarrow> string \<Rightarrow> ObjectId \<Rightarrow> (AxiosError + string option) \<Rightarrow>
   AdminUser list \<Rightarrow> UserRole list \<Rightarrow> CreateAdminDto \<Rightarrow>
   exn + (AdminUser list \<times> UserRole list \<times> AdminUser)" where
  "createAdmin now newAdminId newId posted repo userRoles createAdminDto =
     (let adminUserType0 =
            (case CreateAdminDto.adminUserType createAdminDto of
               None \<Rightarrow> ''admin''
             | Some s \<Rightarrow> if s = [] then ''admin'' else s);
          adminUserType1 =
            (if adminUserType0 = ''superadmin'' then ''super_admin'' else adminUserType0);
          adminUserStatus1 =
            (case CreateAdminDto.adminUserStatus createAdminDto of
               None \<Rightarrow> ACTIVE
             | Some s \<Rightarrow> s)
      in case findOne_email repo (CreateAdminDto.email createAdminDto) of
           Some existingAdmin \<Rightarrow>
             Inl (createAdmin_rethrow (ConflictException (Str ADMIN_ALREADY_EXISTS)))
         | None \<Rightarrow>
             (case posted of
                Inl axiosError \<Rightarrow> Inl (createAdmin_rethrow (createAdmin_authError axiosError))
              | Inr userSub' \<Rightarrow>
                  (case parse_AdminUserType adminUserType1 of
                     None \<Rightarrow>
                       Inl (createAdmin_rethrow
                              (QueryFailedError ''invalid input value for enum''))
                   | Some ty \<Rightarrow>
                       let savedAdmin =
                             \<lparr>admin_id = newAdminId,
                              email = CreateAdminDto.email createAdminDto,
                              name = Some (CreateAdminDto.name createAdminDto),
                              userSub = userSub',
                              adminUserType = ty,
                              adminUserStatus = adminUserStatus1,
                              createdAt = now,
                              updatedAt = now\<rparr>;
                           userRoles' =
                             (case CreateAdminDto.roleId createAdminDto of
                                None \<Rightarrow> userRoles
                              | Some r \<Rightarrow>
                                  if r = [] then userRoles
                                  else assignRoleToUser now newId userRoles newAdminId r)
                       in Inr (repo @ [savedAdmin], userRoles', savedAdmin))))"


section \<open>Sample data\<close>

text \<open>
  The scenario of the specification: the permission \<open>user:read\<close>, the policy \<open>viewer\<close>
  holding it, the role \<open>support\<close> holding \<open>viewer\<close>, assigned to the user \<open>U1\<close>; beside
  them a system policy, a system role and the default role.
\<close>

definition perm_read_hex :: string where
  "perm_read_hex = ''a00000000000000000000001''"

definition viewer_hex :: string where
  "viewer_hex = ''b00000000000000000000001''"

definition core_hex :: string where
  "core_hex = ''b00000000000000000000002''"

definition support_hex :: string where
  "support_hex = ''c00000000000000000000001''"

definition owner_hex :: string where
  "owner_hex = ''c00000000000000000000002''"

definition member_hex :: string where
  "member_hex = ''c00000000000000000000003''"

definition actor_hex :: string where
  "actor_hex = ''e00000000000000000000001''"

definition perm_read :: Permission where
  "perm_read = \<lparr>Permission.oid = ObjectId perm_read_hex, permissionIdentifier = Some ''user:read'',
     name = ''Read users'', description = None, resource = ''user'', action = ''read'',
     isActive = True, deletedAt = None, metadata = []\<rparr>"

definition viewer :: Policy where
  "viewer = \<lparr>Policy.oid = ObjectId viewer_hex, policyIdentifier = ''viewer'', name = ''Viewer'',
     description = None, permissions = [IdRef (ObjectId perm_read_hex)], priority = 10,
     isActive = True, isSystem = False, deletedAt = None, category = ''custom'',
     metadata = []\<rparr>"

definition core_policy :: Policy where
  "core_policy = \<lparr>Policy.oid = ObjectId core_hex, policyIdentifier = ''core'', name = ''Core'',
     description = None, permissions = [], priority = 90,
     isActive = True, isSystem = True, deletedAt = None, category = ''admin'',
     metadata = []\<rparr>"

definition support :: Role where
  "support = \<lparr>Role.oid = ObjectId support_hex, roleIdentifier = ''support'', name = ''Support'',
     description = None, policies = [IdRef (ObjectId viewer_hex)], level = 10,
     isActive = True, isSystem = False, isDefault = False, deletedAt = None, metadata = []\<rparr>"

definition owner :: Role where
  "owner = \<lparr>Role.oid = ObjectId owner_hex, roleIdentifier = ''owner'', name = ''Owner'',
     description = None, policies = [IdRef (ObjectId core_hex)], level = 100,
     isActive = True, isSystem = True, isDefault = False, deletedAt = None, metadata = []\<rparr>"

definition member :: Role where
  "member = \<lparr>Role.oid = ObjectId member_hex, roleIdentifier = ''member'', name = ''Member'',
     description = None, policies = [], level = 1,
     isActive = True, isSystem = False, isDefault = True, deletedAt = None, metadata = []\<rparr>"

definition read_data :: PermissionData where
  "read_data = \<lparr>PermissionData.resource = ''User'', action = '' Read'', name = ''Read users'',
     description = None, permissionIdentifier = None, isActive = None\<rparr>"

definition resource_patch :: PermissionPatch where
  "resource_patch = \<lparr>PermissionPatch.permissionIdentifier = None, name = None,
     description = None, resource = Some ''account'', action = None, isActive = None,
     deletedAt = None, metadata = None\<rparr>"

definition sample_permissions :: "Permission list" where
  "sample_permissions = [perm_read]"

text \<open>
  A policy as \<open>update\<close> can leave it: not a system policy, and with a name shorter than
  the schema allows.
\<close>

definition unnamed_hex :: string where
  "unnamed_hex = ''b00000000000000000000003''"

definition unnamed_policy :: Policy where
  "unnamed_policy = \<lparr>Policy.oid = ObjectId unnamed_hex, policyIdentifier = ''unnamed'',
     name = ''x'', description = None, permissions = [IdRef (ObjectId perm_read_hex)],
     priority = 0, isActive = True, isSystem = False, deletedAt = None,
     category = ''custom'', metadata = []\<rparr>"

definition edited_policies :: "Policy list" where
  "edited_policies = [viewer, unnamed_policy]"

definition sample_policies :: "Policy list" where
  "sample_policies = [viewer, core_policy]"

definition sample_roles :: "Role list" where
  "sample_roles = [support, owner, member]"


text \<open>
  Assignments: \<open>U1\<close> holds \<open>support\<close> (no expiry) and \<open>owner\<close> (a document with an
  expiry at 500, still active); the assignment of \<open>support\<close> to \<open>U2\<close> was soft deleted.
  In \<open>paired_userRoles\<close> the pair of \<open>U3\<close> and \<open>member\<close> has a soft-deleted document
  followed by a live one.
\<close>

definition fresh_hex :: string where
  "fresh_hex = ''d000000000000000000000ff''"

definition u1_support :: UserRole where
  "u1_support = \<lparr>UserRole.oid = ObjectId ''d00000000000000000000001'', userId = ''U1'',
     roleId = IdRef (ObjectId support_hex), isActive = True, assignedBy = None,
     assignedAt = 100, reason = None, deletedAt = None, metadata = [], expiresAt = None\<rparr>"

definition u1_owner_expired :: UserRole where
  "u1_owner_expired = \<lparr>UserRole.oid = ObjectId ''d00000000000000000000002'', userId = ''U1'',
     roleId = IdRef (ObjectId owner_hex), isActive = True, assignedBy = None,
     assignedAt = 100, reason = None, deletedAt = None, metadata = [],
     expiresAt = Some 500\<rparr>"

definition u2_support_revoked :: UserRole where
  "u2_support_revoked = \<lparr>UserRole.oid = ObjectId ''d00000000000000000000003'', userId = ''U2'',
     roleId = IdRef (ObjectId support_hex), isActive = False, assignedBy = None,
     assignedAt = 100, reason = None, deletedAt = Some 300, metadata = [],
     expiresAt = None\<rparr>"

definition sample_userRoles :: "UserRole list" where
  "sample_userRoles = [u1_support, u1_owner_expired, u2_support_revoked]"

definition u3_member_deleted :: UserRole where
  "u3_member_deleted = \<lparr>UserRole.oid = ObjectId ''d00000000000000000000004'', userId = ''U3'',
     roleId = IdRef (ObjectId member_hex), isActive = False, assignedBy = None,
     assignedAt = 100, reason = None, deletedAt = Some 200, metadata = [],
     expiresAt = None\<rparr>"

definition u3_member_live :: UserRole where
  "u3_member_live = \<lparr>UserRole.oid = ObjectId ''d00000000000000000000005'', userId = ''U3'',
     roleId = IdRef (ObjectId member_hex), isActive = True, assignedBy = None,
     assignedAt = 400, reason = None, deletedAt = None, metadata = [],
     expiresAt = None\<rparr>"

definition paired_userRoles :: "UserRole list" where
  "paired_userRoles = [u3_member_deleted, u3_member_live]"

definition u1_support_data :: AssignRoleData where
  "u1_support_data = \<lparr>AssignRoleData.userId = ''U1'', roleId = support_hex,
     assignedBy = Some ''u-root'', expiresAt = Some 9000, reason = Some ''again''\<rparr>"

definition u3_member_data :: AssignRoleData where
  "u3_member_data = \<lparr>AssignRoleData.userId = ''U3'', roleId = member_hex,
     assignedBy = None, expiresAt = None, reason = None\<rparr>"


text \<open>Failures of the provisioning service, and a request to create an account.\<close>

text \<open>
  The request is sent with \<open>timeout: 10000\<close>; when that time is over the client throws
  an error with the code \<open>ECONNABORTED\<close> and no response.
\<close>

definition timeout_error :: AxiosError where
  "timeout_error = \<lparr>AxiosError.code = Some ''ECONNABORTED'', response = None\<rparr>"

definition refused_error :: AxiosError where
  "refused_error = \<lparr>AxiosError.code = Some ''ECONNREFUSED'', response = None\<rparr>"

definition conflict_error :: AxiosError where
  "conflict_error = \<lparr>AxiosError.code = Some ''ERR_BAD_REQUEST'',
     response = Some \<lparr>AxiosResponse.status = 409, message = Some (Str ''User exists'')\<rparr>\<rparr>"

definition invalid_error :: AxiosError where
  "invalid_error = \<lparr>AxiosError.code = Some ''ERR_BAD_REQUEST'',
     response = Some \<lparr>AxiosResponse.status = 400,
       message = Some (Arr [''email must be an email'', ''email should not be empty''])\<rparr>\<rparr>"

definition missing_error :: AxiosError where
  "missing_error = \<lparr>AxiosError.code = Some ''ERR_BAD_REQUEST'',
     response = Some \<lparr>AxiosResponse.status = 404, message = None\<rparr>\<rparr>"

definition server_error :: AxiosError where
  "server_error = \<lparr>AxiosError.code = Some ''ERR_BAD_RESPONSE'',
     response = Some \<lparr>AxiosResponse.status = 500, message = Some (Str ''boom'')\<rparr>\<rparr>"

definition new_admin_uuid :: string where
  "new_admin_uuid = ''00000000-0000-4000-8000-000000000010''"

definition new_admin_dto :: CreateAdminDto where
  "new_admin_dto = \<lparr>CreateAdminDto.email = ''new@example.com'', name = ''New'',
     adminUserType = None, adminUserStatus = None, roleId = None\<rparr>"


section \<open>Properties of the account lifecycle\<close>

lemma find_map_unchanged_key:
  assumes "\<And>x. x \<in> set xs \<Longrightarrow> P (f x) = P x"
  shows "find P (map f xs) = map_option f (find P xs)"
  using assms by (induction xs) auto

lemma findOne_id_Inr:
  "findOne_id repo i = Inr r \<Longrightarrow>
   \<exists>u. string_to_uuid i = Some u \<and>
       r = find (\<lambda>a. string_to_uuid (admin_id a) = Some u) repo"
  by (auto simp: findOne_id_def split: option.splits)

lemma findOne_id_no_uuid:
  "string_to_uuid i = None \<Longrightarrow>
   findOne_id repo i = Inl (QueryFailedError ''invalid input syntax for type uuid'')"
  by (simp add: findOne_id_def)

lemma findOne_id_save:
  assumes "findOne_id repo i = Inr r"
  shows "findOne_id (repository_save now b repo) i =
     Inr (map_option (\<lambda>x. if admin_id x = admin_id b then b\<lparr>updatedAt := now\<rparr> else x) r)"
proof -
  from findOne_id_Inr [OF assms] obtain u where u: "string_to_uuid i = Some u"
    and r: "r = find (\<lambda>a. string_to_uuid (admin_id a) = Some u) repo" by blast
  have "find (\<lambda>a. string_to_uuid (admin_id a) = Some u)
          (map (\<lambda>x. if admin_id x = admin_id b then b\<lparr>updatedAt := now\<rparr> else x) repo) =
        map_option (\<lambda>x. if admin_id x = admin_id b then b\<lparr>updatedAt := now\<rparr> else x)
          (find (\<lambda>a. string_to_uuid (admin_id a) = Some u) repo)"
    by (rule find_map_unchanged_key) simp
  then show ?thesis using u r by (simp add: findOne_id_def repository_save_def)
qed

lemma repository_save_keeps:
  "x \<in> set repo \<Longrightarrow> admin_id x \<noteq> admin_id b \<Longrightarrow> x \<in> set (repository_save now b repo)"
  by (auto simp: repository_save_def)

lemma suspendAdmin_success:
  assumes ne: "actor \<noteq> target" and tg: "findOne_id repo target = Inr (Some t)"
    and st: "AdminUser.adminUserStatus t \<noteq> SUSPENDED"
    and ac: "findOne_id repo actor = Inr ao"
    and guard: "\<not> (\<exists>a. ao = Some a \<and> AdminUser.adminUserType a = ADMIN \<and>
                     AdminUser.adminUserType t = SUPER_ADMIN)"
  shows "suspendAdmin now repo target actor =
           Inr (repository_save now (t\<lparr>AdminUser.adminUserStatus := SUSPENDED\<rparr>) repo)
       \<and> findOne_id (repository_save now (t\<lparr>AdminUser.adminUserStatus := SUSPENDED\<rparr>) repo)
             target =
           Inr (Some (t\<lparr>AdminUser.adminUserStatus := SUSPENDED, updatedAt := now\<rparr>))
       \<and> (\<forall>x \<in> set repo. admin_id x \<noteq> admin_id t \<longrightarrow>
             x \<in> set (repository_save now (t\<lparr>AdminUser.adminUserStatus := SUSPENDED\<rparr>) repo))"
proof -
  let ?t' = "t\<lparr>AdminUser.adminUserStatus := SUSPENDED\<rparr>"
  have run: "suspendAdmin now repo target actor = Inr (repository_save now ?t' repo)"
    using ne tg st ac guard by (cases ao) (simp_all add: suspendAdmin_def)
  have stored: "findOne_id (repository_save now ?t' repo) target =
      Inr (Some (t\<lparr>AdminUser.adminUserStatus := SUSPENDED, updatedAt := now\<rparr>))"
    using findOne_id_save [OF tg, of now ?t'] by simp
  have rest: "\<forall>x \<in> set repo. admin_id x \<noteq> admin_id t \<longrightarrow>
      x \<in> set (repository_save now ?t' repo)"
    using repository_save_keeps [of _ repo ?t' now] by simp
  show ?thesis using run stored rest by blast
qed

lemma reactivateAdmin_success:
  assumes ne: "actor \<noteq> target" and tg: "findOne_id repo target = Inr (Some t)"
    and st: "AdminUser.adminUserStatus t \<noteq> ACTIVE"
    and ac: "findOne_id repo actor = Inr ao"
    and guard: "\<not> (\<exists>a. ao = Some a \<and> AdminUser.adminUserType a = ADMIN \<and>
                     AdminUser.adminUserType t = SUPER_ADMIN)"
  shows "reactivateAdmin now repo target actor =
           Inr (repository_save now (t\<lparr>AdminUser.adminUserStatus := ACTIVE\<rparr>) repo)
       \<and> findOne_id (repository_save now (t\<lparr>AdminUser.adminUserStatus := ACTIVE\<rparr>) repo)
             target =
           Inr (Some (t\<lparr>AdminUser.adminUserStatus := ACTIVE, updatedAt := now\<rparr>))
       \<and> (\<forall>x \<in> set repo. admin_id x \<noteq> admin_id t \<longrightarrow>
             x \<in> set (repository_save now (t\<lparr>AdminUser.adminUserStatus := ACTIVE\<rparr>) repo))"
proof -
  let ?t' = "t\<lparr>AdminUser.adminUserStatus := ACTIVE\<rparr>"
  have run: "reactivateAdmin now repo target actor = Inr (repository_save now ?t' repo)"
    using ne tg st ac guard by (cases ao) (simp_all add: reactivateAdmin_def)
  have stored: "findOne_id (repository_save now ?t' repo) target =
      Inr (Some (t\<lparr>AdminUser.adminUserStatus := ACTIVE, updatedAt := now\<rparr>))"
    using findOne_id_save [OF tg, of now ?t'] by simp
  have rest: "\<forall>x \<in> set repo. admin_id x \<noteq> admin_id t \<longrightarrow>
      x \<in> set (repository_save now ?t' repo)"
    using repository_save_keeps [of _ repo ?t' now] by simp
  show ?thesis using run stored rest by blast
qed


lemma sample_lookups:
  "findOne_id sample_accounts root_uuid = Inr (Some root_account)"
  "findOne_id sample_accounts staff_uuid = Inr (Some staff_account)"
  "findOne_id sample_accounts idle_uuid = Inr (Some idle_account)"
  "findOne_id sample_accounts root2_uuid = Inr (Some locked_root_account)"
  "findOne_id sample_accounts ghost_uuid = Inr None"
  "string_to_uuid no_uuid = None"
  by code_simp+

lemma sample_account_fields:
  "AdminUser.adminUserType root_account = SUPER_ADMIN"
  "AdminUser.adminUserStatus root_account = ACTIVE"
  "AdminUser.adminUserType staff_account = ADMIN"
  "AdminUser.adminUserStatus staff_account = ACTIVE"
  "AdminUser.adminUserType idle_account = ADMIN"
  "AdminUser.adminUserStatus idle_account = SUSPENDED"
  "AdminUser.adminUserType locked_root_account = SUPER_ADMIN"
  "AdminUser.adminUserStatus locked_root_account = SUSPENDED"
  by (simp_all add: root_account_def staff_account_def idle_account_def
      locked_root_account_def)

lemma sample_uuids_differ:
  "staff_uuid \<noteq> root_uuid" "staff_uuid \<noteq> root2_uuid" "root_uuid \<noteq> staff_uuid"
  "root_uuid \<noteq> idle_uuid" "root_uuid \<noteq> ghost_uuid" "ghost_uuid \<noteq> root_uuid"
  "ghost_uuid \<noteq> root2_uuid" "no_uuid \<noteq> root_uuid" "root_uuid \<noteq> no_uuid"
  by (simp_all add: root_uuid_def staff_uuid_def idle_uuid_def root2_uuid_def
      ghost_uuid_def no_uuid_def)

lemma no_uuid_not_stored: "no_uuid \<notin> set (map admin_id sample_accounts)"
  by (simp add: sample_accounts_def root_account_def staff_account_def idle_account_def
      locked_root_account_def root_uuid_def staff_uuid_def idle_uuid_def root2_uuid_def
      no_uuid_def)



text \<open>
  Claim C10. The guard "admin over super_admin" is evaluated only when the actor's row is
  found. When \<open>actorAdminId\<close> is the text of a uuid that matches no stored account and
  differs from the target, \<open>suspendAdmin\<close> succeeds for every existing target that is not
  yet suspended, and \<open>reactivateAdmin\<close> for every existing target that is not active,
  whatever the type of the target: the target's new status is stored.
\<close>

theorem unknown_actor_skips_rank_guard:
  assumes "actor \<noteq> target"
    and "findOne_id repo actor = Inr None"
    and "findOne_id repo target = Inr (Some t)"
  shows "(AdminUser.adminUserStatus t \<noteq> SUSPENDED \<longrightarrow>
           suspendAdmin now repo target actor =
             Inr (repository_save now (t\<lparr>AdminUser.adminUserStatus := SUSPENDED\<rparr>) repo) \<and>
           findOne_id (repository_save now (t\<lparr>AdminUser.adminUserStatus := SUSPENDED\<rparr>) repo)
               target =
             Inr (Some (t\<lparr>AdminUser.adminUserStatus := SUSPENDED, updatedAt := now\<rparr>)))
       \<and> (AdminUser.adminUserStatus t \<noteq> ACTIVE \<longrightarrow>
           reactivateAdmin now repo target actor =
             Inr (repository_save now (t\<lparr>AdminUser.adminUserStatus := ACTIVE\<rparr>) repo) \<and>
           findOne_id (repository_save now (t\<lparr>AdminUser.adminUserStatus := ACTIVE\<rparr>) repo)
               target =
             Inr (Some (t\<lparr>AdminUser.adminUserStatus := ACTIVE, updatedAt := now\<rparr>)))"
  using suspendAdmin_success [OF assms(1,3) _ assms(2), of now]
    reactivateAdmin_success [OF assms(1,3) _ assms(2), of now]
  by simp

theorem unknown_actor_skips_rank_guard_witness:
  "findOne_id sample_accounts ghost_uuid = Inr None
   \<and> AdminUser.adminUserType root_account = SUPER_ADMIN
   \<and> AdminUser.adminUserType locked_root_account = SUPER_ADMIN
   \<and> suspendAdmin 5000 sample_accounts root_uuid ghost_uuid =
       Inr (repository_save 5000 (root_account\<lparr>AdminUser.adminUserStatus := SUSPENDED\<rparr>)
              sample_accounts)
   \<and> findOne_id
       (repository_save 5000 (root_account\<lparr>AdminUser.adminUserStatus := SUSPENDED\<rparr>)
          sample_accounts) root_uuid =
       Inr (Some (root_account\<lparr>AdminUser.adminUserStatus := SUSPENDED, updatedAt := 5000\<rparr>))
   \<and> reactivateAdmin 5000 sample_accounts root2_uuid ghost_uuid =
       Inr (repository_save 5000 (locked_root_account\<lparr>AdminUser.adminUserStatus := ACTIVE\<rparr>)
              sample_accounts)"
  using unknown_actor_skips_rank_guard [OF sample_uuids_differ(6) sample_lookups(5)
      sample_lookups(1), of 5000]
    unknown_actor_skips_rank_guard [OF sample_uuids_differ(7) sample_lookups(5)
      sample_lookups(4), of 5000]
  by (simp add: sample_lookups sample_account_fields sample_uuids_differ)

text \<open>
  Claim C10, the case the claim leaves out. The actor \<open>u-ghost\<close> matches no stored account
  and differs from the target, an existing super_admin that is not suspended; the
  transition does not succeed, because the text is no uuid and the query for the actor
  fails.
\<close>

theorem malformed_actor_counterexample:
  "no_uuid \<notin> set (map admin_id sample_accounts)
   \<and> no_uuid \<noteq> root_uuid
   \<and> findOne_id sample_accounts root_uuid = Inr (Some root_account)
   \<and> AdminUser.adminUserStatus root_account = ACTIVE
   \<and> suspendAdmin 5000 sample_accounts root_uuid no_uuid =
       Inl (QueryFailedError ''invalid input syntax for type uuid'')"
  using no_uuid_not_stored
  by (simp add: suspendAdmin_def findOne_id_no_uuid sample_lookups sample_account_fields
      sample_uuids_differ)


section \<open>Properties of permissions\<close>

lemma Permission_findById_Some:
  "Permission_findById coll i = Some p \<Longrightarrow> Permission.oid p = i \<and> p \<in> set coll"
  by (auto simp: Permission_findById_def find_Some_iff)

lemma Permission_findById_replace:
  "Permission_findById coll i = Some p \<Longrightarrow> Permission.oid d = i \<Longrightarrow>
   Permission_findById (Permission_replace d coll) i = Some d"
  unfolding Permission_findById_def Permission_replace_def
  by (induction coll) (auto split: if_splits)

lemma PermissionService_create_derives:
  assumes "PermissionData.permissionIdentifier data = None"
    and "PermissionService_create newId coll data = Inr (coll', doc)"
  shows "Permission.permissionIdentifier doc =
           Some (Permission.resource doc @ '':'' @ Permission.action doc)
       \<and> Permission.resource doc = toLowerCase (trim (PermissionData.resource data))
       \<and> Permission.action doc = toLowerCase (trim (PermissionData.action data))
       \<and> coll' = coll @ [doc]"
  using assms
  by (auto simp: PermissionService_create_def Permission_save_new_def Permission_valid_def
      Permission_pre_save_def Let_def split: if_splits)

lemma PermissionService_update_keeps:
  assumes "PermissionPatch.permissionIdentifier patch = None"
    and "cast_ObjectId pid = Inr i" and "Permission_findById coll i = Some p"
  shows "PermissionService_update coll pid patch =
           Inr (Permission_replace (Permission_apply_patch patch p) coll,
                Some (Permission_apply_patch patch p))
       \<and> Permission.permissionIdentifier (Permission_apply_patch patch p) =
           Permission.permissionIdentifier p
       \<and> Permission_findById (Permission_replace (Permission_apply_patch patch p) coll) i =
           Some (Permission_apply_patch patch p)"
proof -
  have k: "Permission.permissionIdentifier (Permission_apply_patch patch p) =
           Permission.permissionIdentifier p"
    using assms(1) by (simp add: Permission_apply_patch_def)
  have i: "Permission.oid (Permission_apply_patch patch p) = i"
    using Permission_findById_Some [OF assms(3)] by (simp add: Permission_apply_patch_def)
  have u: "PermissionService_update coll pid patch =
           Inr (Permission_replace (Permission_apply_patch patch p) coll,
                Some (Permission_apply_patch patch p))"
    using assms(2,3) k by (simp add: PermissionService_update_def Let_def)
  show ?thesis using k u Permission_findById_replace [OF assms(3) i] by simp
qed


text \<open>
  Claim C9. A permission created without an identifier is stored with the identifier
  \<open>resource + ":" + action\<close>, resource and action being the stored (trimmed, lower-case)
  values. An update that gives no identifier succeeds and leaves the identifier of the
  document as it was, whatever it does to resource and action: it is not derived again.
\<close>

theorem permission_identifier:
  "(PermissionData.permissionIdentifier data = None \<and>
    PermissionService_create newId coll data = Inr (coll', doc) \<longrightarrow>
      Permission.permissionIdentifier doc =
        Some (Permission.resource doc @ '':'' @ Permission.action doc) \<and>
      Permission.resource doc = toLowerCase (trim (PermissionData.resource data)) \<and>
      Permission.action doc = toLowerCase (trim (PermissionData.action data)) \<and>
      coll' = coll @ [doc])
   \<and> (PermissionPatch.permissionIdentifier patch = None \<and> cast_ObjectId pid = Inr i \<and>
        Permission_findById coll i = Some p \<longrightarrow>
      PermissionService_update coll pid patch =
        Inr (Permission_replace (Permission_apply_patch patch p) coll,
             Some (Permission_apply_patch patch p)) \<and>
      Permission.permissionIdentifier (Permission_apply_patch patch p) =
        Permission.permissionIdentifier p \<and>
      Permission_findById (Permission_replace (Permission_apply_patch patch p) coll) i =
        Some (Permission_apply_patch patch p))"
  using PermissionService_create_derives [of data newId coll coll' doc]
    PermissionService_update_keeps [of patch pid i coll p]
  by blast

theorem permission_identifier_witness:
  "PermissionData.permissionIdentifier read_data = None
   \<and> PermissionService_create (ObjectId perm_read_hex) [] read_data = Inr ([perm_read], perm_read)
   \<and> Permission.permissionIdentifier perm_read = Some ''user:read''
   \<and> PermissionPatch.permissionIdentifier resource_patch = None
   \<and> PermissionService_update [perm_read] perm_read_hex resource_patch =
       Inr ([perm_read\<lparr>Permission.resource := ''account''\<rparr>],
            Some (perm_read\<lparr>Permission.resource := ''account''\<rparr>))
   \<and> Permission.resource (Permission_apply_patch resource_patch perm_read) = ''account''
   \<and> Permission.permissionIdentifier (Permission_apply_patch resource_patch perm_read) =
       Some ''user:read''"
proof -
  have d: "PermissionData.permissionIdentifier read_data = None"
    by (simp add: read_data_def)
  have c: "PermissionService_create (ObjectId perm_read_hex) [] read_data =
      Inr ([perm_read], perm_read)"
    by (simp add: PermissionService_create_def Permission_save_new_def Permission_valid_def
        Permission_pre_save_def Permission_identifier_taken_def read_data_def perm_read_def
        trim_def isSpace_def toLowerCase_def toLowerChar_def action_enum_def Let_def)
  have pn: "PermissionPatch.permissionIdentifier resource_patch = None"
    by (simp add: resource_patch_def)
  have k: "cast_ObjectId perm_read_hex = Inr (ObjectId perm_read_hex)"
    by (simp add: cast_ObjectId_def isObjectIdString_def isHexDigit_def toLowerCase_def
        toLowerChar_def perm_read_hex_def)
  have f: "Permission_findById [perm_read] (ObjectId perm_read_hex) = Some perm_read"
    by (simp add: Permission_findById_def perm_read_def)
  have a: "Permission_apply_patch resource_patch perm_read =
      perm_read\<lparr>Permission.resource := ''account''\<rparr>"
    by (simp add: Permission_apply_patch_def resource_patch_def perm_read_def trim_def
        isSpace_def toLowerCase_def toLowerChar_def)
  have r: "Permission_replace (perm_read\<lparr>Permission.resource := ''account''\<rparr>) [perm_read] =
      [perm_read\<lparr>Permission.resource := ''account''\<rparr>]"
    by (simp add: Permission_replace_def)
  have pi: "Permission.permissionIdentifier perm_read = Some ''user:read''"
    by (simp add: perm_read_def)
  show ?thesis
    using permission_identifier [where data = read_data and newId = "ObjectId perm_read_hex"
        and coll = "[]" and coll' = "[perm_read]" and doc = perm_read]
      permission_identifier [where patch = resource_patch and pid = perm_read_hex
        and i = "ObjectId perm_read_hex" and coll = "[perm_read]" and p = perm_read]
      d c pn k f a r pi
    by simp
qed


section \<open>Properties of policies and roles\<close>

lemma Policy_findById_Some:
  "Policy_findById coll i = Some p \<Longrightarrow> Policy.oid p = i \<and> p \<in> set coll"
  by (auto simp: Policy_findById_def find_Some_iff)

lemma Policy_findById_write:
  "Policy_findById coll i = Some p \<Longrightarrow> Policy.oid d = i \<Longrightarrow>
   Policy_findById (Policy_write d coll) i = Some d"
  unfolding Policy_findById_def Policy_write_def
  by (induction coll) (auto split: if_splits)

lemma Policy_write_member:
  "x \<in> set (Policy_write d coll) \<Longrightarrow> Policy.oid x = Policy.oid d \<Longrightarrow> x = d"
  unfolding Policy_write_def by auto

lemma oid_populate_permissions [simp]:
  "Policy.oid (populate_permissions perms p) = Policy.oid p"
  "Policy.deletedAt (populate_permissions perms p) = Policy.deletedAt p"
  "Policy.priority (populate_permissions perms p) = Policy.priority p"
  by (simp_all add: populate_permissions_def)

lemma PolicyService_findAll_excludes:
  assumes "Policy.deletedAt d \<noteq> None"
  shows "\<forall>q \<in> set (PolicyService_findAll perms (Policy_write d coll)). Policy.oid q \<noteq> Policy.oid d"
proof
  fix q assume "q \<in> set (PolicyService_findAll perms (Policy_write d coll))"
  then obtain x where x: "x \<in> set (Policy_write d coll)" "Policy.deletedAt x = None"
      "q = populate_permissions perms x"
    by (auto simp: PolicyService_findAll_def)
  show "Policy.oid q \<noteq> Policy.oid d"
  proof
    assume "Policy.oid q = Policy.oid d"
    with x have "x = d" using Policy_write_member [of x d coll] by simp
    with x assms show False by simp
  qed
qed

lemma Policy_valid_softDeleted [simp]:
  "Policy_valid (p\<lparr>Policy.deletedAt := d, Policy.isActive := b\<rparr>) = Policy_valid p"
  by (simp add: Policy_valid_def)

lemma Role_findById_Some:
  "Role_findById coll i = Some p \<Longrightarrow> Role.oid p = i \<and> p \<in> set coll"
  by (auto simp: Role_findById_def find_Some_iff)

lemma Role_findById_write:
  "Role_findById coll i = Some p \<Longrightarrow> Role.oid d = i \<Longrightarrow>
   Role_findById (Role_write d coll) i = Some d"
  unfolding Role_findById_def Role_write_def
  by (induction coll) (auto split: if_splits)

lemma Role_write_member:
  "x \<in> set (Role_write d coll) \<Longrightarrow> Role.oid x = Role.oid d \<Longrightarrow> x = d"
  unfolding Role_write_def by auto

lemma oid_populate_policies [simp]:
  "Role.oid (populate_policies_permissions perms pols r) = Role.oid r"
  "Role.deletedAt (populate_policies_permissions perms pols r) = Role.deletedAt r"
  "Role.level (populate_policies_permissions perms pols r) = Role.level r"
  by (simp_all add: populate_policies_permissions_def)

lemma RoleService_findAll_excludes:
  assumes "Role.deletedAt d \<noteq> None"
  shows "\<forall>q \<in> set (RoleService_findAll perms pols (Role_write d coll)). Role.oid q \<noteq> Role.oid d"
proof
  fix q assume "q \<in> set (RoleService_findAll perms pols (Role_write d coll))"
  then obtain x where x: "x \<in> set (Role_write d coll)" "Role.deletedAt x = None"
      "q = populate_policies_permissions perms pols x"
    by (auto simp: RoleService_findAll_def)
  show "Role.oid q \<noteq> Role.oid d"
  proof
    assume "Role.oid q = Role.oid d"
    with x have "x = d" using Role_write_member [of x d coll] by simp
    with x assms show False by simp
  qed
qed

lemma Role_valid_softDeleted [simp]:
  "Role_valid (r\<lparr>Role.deletedAt := d, Role.isActive := b\<rparr>) = Role_valid r"
  by (simp add: Role_valid_def)

lemma PolicyService_softDelete_ok:
  assumes c: "cast_ObjectId pid = Inr i" and f: "Policy_findById pols i = Some p"
    and ns: "\<not> Policy.isSystem p" and v: "Policy_valid p"
  shows "PolicyService_softDelete now pols pid =
            Inr (Policy_write (p\<lparr>Policy.deletedAt := Some now, Policy.isActive := False\<rparr>) pols,
                 Some (p\<lparr>Policy.deletedAt := Some now, Policy.isActive := False\<rparr>)) \<and>
          Policy_findById
            (Policy_write (p\<lparr>Policy.deletedAt := Some now, Policy.isActive := False\<rparr>) pols) i =
            Some (p\<lparr>Policy.deletedAt := Some now, Policy.isActive := False\<rparr>) \<and>
          (\<forall>q \<in> set (PolicyService_findAll perms
                        (Policy_write (p\<lparr>Policy.deletedAt := Some now,
                                         Policy.isActive := False\<rparr>) pols)).
             Policy.oid q \<noteq> i)"
proof -
  let ?p' = "p\<lparr>Policy.deletedAt := Some now, Policy.isActive := False\<rparr>"
  have idp: "Policy.oid ?p' = i" using Policy_findById_Some [OF f] by simp
  have run: "PolicyService_softDelete now pols pid = Inr (Policy_write ?p' pols, Some ?p')"
    using c f ns v
    by (simp add: PolicyService_softDelete_def Policy_softDelete_def Policy_save_def)
  have st: "Policy_findById (Policy_write ?p' pols) i = Some ?p'"
    using Policy_findById_write [OF f idp] .
  have ex: "\<forall>q \<in> set (PolicyService_findAll perms (Policy_write ?p' pols)). Policy.oid q \<noteq> i"
    using PolicyService_findAll_excludes [of ?p' perms pols] idp by simp
  show ?thesis using run st ex by blast
qed

lemma RoleService_softDelete_ok:
  assumes c: "cast_ObjectId rid = Inr j" and f: "Role_findById roles j = Some r"
    and ns: "\<not> Role.isSystem r" and nd: "\<not> Role.isDefault r" and v: "Role_valid r"
  shows "RoleService_softDelete now roles rid =
            Inr (Role_write (r\<lparr>Role.deletedAt := Some now, Role.isActive := False\<rparr>) roles,
                 Some (r\<lparr>Role.deletedAt := Some now, Role.isActive := False\<rparr>)) \<and>
          Role_findById
            (Role_write (r\<lparr>Role.deletedAt := Some now, Role.isActive := False\<rparr>) roles) j =
            Some (r\<lparr>Role.deletedAt := Some now, Role.isActive := False\<rparr>) \<and>
          (\<forall>q \<in> set (RoleService_findAll perms pols
                        (Role_write (r\<lparr>Role.deletedAt := Some now,
                                       Role.isActive := False\<rparr>) roles)).
             Role.oid q \<noteq> j)"
proof -
  let ?r' = "r\<lparr>Role.deletedAt := Some now, Role.isActive := False\<rparr>"
  have idr: "Role.oid ?r' = j" using Role_findById_Some [OF f] by simp
  have run: "RoleService_softDelete now roles rid = Inr (Role_write ?r' roles, Some ?r')"
    using c f ns nd v
    by (simp add: RoleService_softDelete_def Role_softDelete_def Role_save_def)
  have st: "Role_findById (Role_write ?r' roles) j = Some ?r'"
    using Role_findById_write [OF f idr] .
  have ex: "\<forall>q \<in> set (RoleService_findAll perms pols (Role_write ?r' roles)). Role.oid q \<noteq> j"
    using RoleService_findAll_excludes [of ?r' perms pols roles] idr by simp
  show ?thesis using run st ex by blast
qed

text \<open>
  Claim C6. Soft-deleting a policy with \<open>isSystem\<close> fails, and so does soft-deleting a
  role with \<open>isSystem\<close> or with \<open>isDefault\<close> (the invariant violation is the \<open>Error\<close>
  thrown by the method). Soft-deleting a policy with \<open>isSystem = false\<close>, or a role with
  \<open>isSystem = false\<close> and \<open>isDefault = false\<close>, succeeds when the stored document
  satisfies the validators of its schema: the stored document then has \<open>deletedAt\<close> set
  to the time of the call and \<open>isActive\<close> cleared, and no result of a following
  \<open>findAll\<close> is that document. When the stored document does not satisfy them, the
  \<open>save\<close> that ends \<open>softDelete\<close> fails with a \<open>ValidationError\<close> and nothing is changed.
\<close>

theorem soft_delete_protection:
  assumes "cast_ObjectId pid = Inr i" and "Policy_findById pols i = Some p"
    and "cast_ObjectId rid = Inr j" and "Role_findById roles j = Some r"
  shows "(Policy.isSystem p \<longrightarrow>
            PolicyService_softDelete now pols pid = Inl (Error ''Cannot delete system policies''))
     \<and> (Role.isSystem r \<longrightarrow>
            RoleService_softDelete now roles rid = Inl (Error ''Cannot delete system roles''))
     \<and> (\<not> Role.isSystem r \<and> Role.isDefault r \<longrightarrow>
            RoleService_softDelete now roles rid = Inl (Error ''Cannot delete default role''))
     \<and> (\<not> Policy.isSystem p \<and> Policy_valid p \<longrightarrow>
            PolicyService_softDelete now pols pid =
              Inr (Policy_write (p\<lparr>Policy.deletedAt := Some now, Policy.isActive := False\<rparr>) pols,
                   Some (p\<lparr>Policy.deletedAt := Some now, Policy.isActive := False\<rparr>)) \<and>
            Policy_findById
              (Policy_write (p\<lparr>Policy.deletedAt := Some now, Policy.isActive := False\<rparr>) pols)
              i =
              Some (p\<lparr>Policy.deletedAt := Some now, Policy.isActive := False\<rparr>) \<and>
            (\<forall>q \<in> set (PolicyService_findAll perms
                          (Policy_write (p\<lparr>Policy.deletedAt := Some now,
                                           Policy.isActive := False\<rparr>) pols)).
               Policy.oid q \<noteq> i))
     \<and> (\<not> Policy.isSystem p \<and> \<not> Policy_valid p \<longrightarrow>
            PolicyService_softDelete now pols pid =
              Inl (ValidationError ''Policy validation failed''))
     \<and> (\<not> Role.isSystem r \<and> \<not> Role.isDefault r \<and> Role_valid r \<longrightarrow>
            RoleService_softDelete now roles rid =
              Inr (Role_write (r\<lparr>Role.deletedAt := Some now, Role.isActive := False\<rparr>) roles,
                   Some (r\<lparr>Role.deletedAt := Some now, Role.isActive := False\<rparr>)) \<and>
            Role_findById
              (Role_write (r\<lparr>Role.deletedAt := Some now, Role.isActive := False\<rparr>) roles) j =
              Some (r\<lparr>Role.deletedAt := Some now, Role.isActive := False\<rparr>) \<and>
            (\<forall>q \<in> set (RoleService_findAll perms pols
                          (Role_write (r\<lparr>Role.deletedAt := Some now,
                                         Role.isActive := False\<rparr>) roles)).
               Role.oid q \<noteq> j))
     \<and> (\<not> Role.isSystem r \<and> \<not> Role.isDefault r \<and> \<not> Role_valid r \<longrightarrow>
            RoleService_softDelete now roles rid =
              Inl (ValidationError ''Role validation failed''))"
  (is "?a \<and> ?b \<and> ?c \<and> ?d \<and> ?dv \<and> ?e \<and> ?ev")
proof -
  have a: ?a using assms(1,2)
    by (simp add: PolicyService_softDelete_def Policy_softDelete_def)
  have b: ?b using assms(3,4)
    by (simp add: RoleService_softDelete_def Role_softDelete_def)
  have c: ?c using assms(3,4)
    by (simp add: RoleService_softDelete_def Role_softDelete_def)
  have d: ?d using PolicyService_softDelete_ok [OF assms(1,2)] by blast
  have dv: ?dv using assms(1,2)
    by (simp add: PolicyService_softDelete_def Policy_softDelete_def Policy_save_def)
  have e: ?e using RoleService_softDelete_ok [OF assms(3,4)] by blast
  have ev: ?ev using assms(3,4)
    by (simp add: RoleService_softDelete_def Role_softDelete_def Role_save_def)
  from a b c d dv e ev show ?thesis by blast
qed

lemma sample_policy_casts:
  "cast_ObjectId core_hex = Inr (ObjectId core_hex)"
  "cast_ObjectId viewer_hex = Inr (ObjectId viewer_hex)"
  "cast_ObjectId unnamed_hex = Inr (ObjectId unnamed_hex)"
  "cast_ObjectId owner_hex = Inr (ObjectId owner_hex)"
  "cast_ObjectId member_hex = Inr (ObjectId member_hex)"
  "cast_ObjectId support_hex = Inr (ObjectId support_hex)"
  "new_ObjectId perm_read_hex = Inr (ObjectId perm_read_hex)"
  "new_ObjectId viewer_hex = Inr (ObjectId viewer_hex)"
  by (simp_all add: cast_ObjectId_def new_ObjectId_def isObjectIdString_def isHexDigit_def
      toLowerCase_def toLowerChar_def core_hex_def viewer_hex_def unnamed_hex_def
      owner_hex_def member_hex_def support_hex_def perm_read_hex_def)

lemma sample_policy_lookups:
  "Policy_findById sample_policies (ObjectId core_hex) = Some core_policy"
  "Policy_findById sample_policies (ObjectId viewer_hex) = Some viewer"
  "Policy_findById edited_policies (ObjectId unnamed_hex) = Some unnamed_policy"
  "Policy_findById edited_policies (ObjectId viewer_hex) = Some viewer"
  by (simp_all add: Policy_findById_def sample_policies_def edited_policies_def viewer_def
      core_policy_def unnamed_policy_def core_hex_def viewer_hex_def unnamed_hex_def)

lemma sample_role_lookups:
  "Role_findById sample_roles (ObjectId owner_hex) = Some owner"
  "Role_findById sample_roles (ObjectId member_hex) = Some member"
  "Role_findById sample_roles (ObjectId support_hex) = Some support"
  by (simp_all add: Role_findById_def sample_roles_def support_def owner_def member_def
      owner_hex_def member_hex_def support_hex_def)

lemma sample_flags:
  "Policy.isSystem core_policy" "\<not> Policy.isSystem viewer" "\<not> Policy.isSystem unnamed_policy"
  "Role.isSystem owner" "\<not> Role.isSystem member" "Role.isDefault member"
  "\<not> Role.isSystem support" "\<not> Role.isDefault support"
  by (simp_all add: core_policy_def viewer_def unnamed_policy_def owner_def member_def
      support_def)

lemma sample_validity:
  "Policy_valid viewer" "Policy_valid core_policy" "\<not> Policy_valid unnamed_policy"
  "Role_valid support" "Role_valid owner" "Role_valid member"
  by (simp_all add: Policy_valid_def Role_valid_def isSlugChar_def category_enum_def
      viewer_def core_policy_def unnamed_policy_def support_def owner_def member_def)

theorem soft_delete_protection_witness:
  "PolicyService_softDelete 7000 sample_policies core_hex =
     Inl (Error ''Cannot delete system policies'')
   \<and> RoleService_softDelete 7000 sample_roles owner_hex =
     Inl (Error ''Cannot delete system roles'')
   \<and> RoleService_softDelete 7000 sample_roles member_hex =
     Inl (Error ''Cannot delete default role'')
   \<and> PolicyService_softDelete 7000 sample_policies viewer_hex =
       Inr (Policy_write (viewer\<lparr>Policy.deletedAt := Some 7000, Policy.isActive := False\<rparr>)
              sample_policies,
            Some (viewer\<lparr>Policy.deletedAt := Some 7000, Policy.isActive := False\<rparr>))
   \<and> map Policy.oid
         (PolicyService_findAll sample_permissions
            (Policy_write (viewer\<lparr>Policy.deletedAt := Some 7000, Policy.isActive := False\<rparr>)
               sample_policies)) = [ObjectId core_hex]
   \<and> RoleService_softDelete 7000 sample_roles support_hex =
       Inr (Role_write (support\<lparr>Role.deletedAt := Some 7000, Role.isActive := False\<rparr>)
              sample_roles,
            Some (support\<lparr>Role.deletedAt := Some 7000, Role.isActive := False\<rparr>))
   \<and> map Role.oid
         (RoleService_findAll sample_permissions sample_policies
            (Role_write (support\<lparr>Role.deletedAt := Some 7000, Role.isActive := False\<rparr>)
               sample_roles)) = [ObjectId owner_hex, ObjectId member_hex]"
proof -
  have all_p: "map Policy.oid
         (PolicyService_findAll sample_permissions
            (Policy_write (viewer\<lparr>Policy.deletedAt := Some 7000, Policy.isActive := False\<rparr>)
               sample_policies)) = [ObjectId core_hex]"
    by (simp add: PolicyService_findAll_def Policy_write_def sample_policies_def viewer_def
        core_policy_def viewer_hex_def core_hex_def)
  have all_r: "map Role.oid
         (RoleService_findAll sample_permissions sample_policies
            (Role_write (support\<lparr>Role.deletedAt := Some 7000, Role.isActive := False\<rparr>)
               sample_roles)) = [ObjectId owner_hex, ObjectId member_hex]"
    by (simp add: RoleService_findAll_def Role_write_def sample_roles_def support_def
        owner_def member_def support_hex_def owner_hex_def member_hex_def)
  show ?thesis
    using
      soft_delete_protection [OF sample_policy_casts(1) sample_policy_lookups(1)
        sample_policy_casts(4) sample_role_lookups(1), of 7000 sample_permissions]
      soft_delete_protection [OF sample_policy_casts(1) sample_policy_lookups(1)
        sample_policy_casts(5) sample_role_lookups(2), of 7000 sample_permissions]
      soft_delete_protection [OF sample_policy_casts(2) sample_policy_lookups(2)
        sample_policy_casts(6) sample_role_lookups(3), of 7000 sample_permissions]
      sample_flags sample_validity all_p all_r
    by simp
qed

text \<open>
  Claim C6 as written has every soft delete of a policy with \<open>isSystem = false\<close> succeed.
  The policy \<open>unnamed_policy\<close> has the name \<open>x\<close>, which \<open>update\<close> can store and the
  validator \<open>minlength: 3\<close> rejects: it is not a system policy, and its soft delete
  fails.
\<close>

theorem soft_delete_invalid_counterexample:
  "Policy_findById edited_policies (ObjectId unnamed_hex) = Some unnamed_policy
   \<and> Policy.isSystem unnamed_policy = False
   \<and> PolicyService_softDelete 7000 edited_policies unnamed_hex =
       Inl (ValidationError ''Policy validation failed'')"
  using sample_policy_casts(3) sample_policy_lookups(3) sample_flags(3) sample_validity(3)
  by (simp add: PolicyService_softDelete_def Policy_softDelete_def Policy_save_def)

lemma Policy_write_unchanged:
  assumes "p \<in> set coll" and "distinct (map Policy.oid coll)"
  shows "Policy_write p coll = coll"
proof -
  have "inj_on Policy.oid (set coll)" using assms(2) by (simp add: distinct_map)
  then have "\<forall>x \<in> set coll. (if Policy.oid x = Policy.oid p then p else x) = x"
    using assms(1) by (auto dest: inj_onD)
  then show ?thesis unfolding Policy_write_def by (simp add: map_idI)
qed

lemma Role_write_unchanged:
  assumes "r \<in> set coll" and "distinct (map Role.oid coll)"
  shows "Role_write r coll = coll"
proof -
  have "inj_on Role.oid (set coll)" using assms(2) by (simp add: distinct_map)
  then have "\<forall>x \<in> set coll. (if Role.oid x = Role.oid r then r else x) = x"
    using assms(1) by (auto dest: inj_onD)
  then show ?thesis unfolding Role_write_def by (simp add: map_idI)
qed

lemma array_includes_iff: "array_includes arr i \<longleftrightarrow> IdRef i \<in> set arr"
  by (auto simp: array_includes_def list_ex_iff)

lemma PolicyService_addPermission_present:
  assumes "cast_ObjectId p_id = Inr i" and "Policy_findById pols i = Some p"
    and "new_ObjectId m_id = Inr x" and "IdRef x \<in> set (Policy.permissions p)"
  shows "PolicyService_addPermission pols p_id m_id =
           (if Policy_valid p then Inr (Policy_write p pols, Some p)
            else Inl (ValidationError ''Policy validation failed''))"
  using assms
  by (simp add: PolicyService_addPermission_def Policy_addPermission_def Policy_save_def
      array_includes_iff)

lemma RoleService_addPolicy_present:
  assumes "cast_ObjectId r_id = Inr j" and "Role_findById roles j = Some r"
    and "new_ObjectId q_id = Inr y" and "IdRef y \<in> set (Role.policies r)"
  shows "RoleService_addPolicy roles r_id q_id =
           (if Role_valid r then Inr (Role_write r roles, Some r)
            else Inl (ValidationError ''Role validation failed''))"
  using assms
  by (simp add: RoleService_addPolicy_def Role_addPolicy_def Role_save_def
      array_includes_iff)

text \<open>
  Claim C8. Adding to a policy a permission that its \<open>permissions\<close> already hold changes
  nothing: no second entry is added, the stored policy is the same document after the
  call, and a collection with distinct ids is left as it was. The service returns the
  policy as it was when the stored policy satisfies the validators of the schema; when
  it does not, the \<open>save\<close> that ends \<open>addPermission\<close> fails with a \<open>ValidationError\<close>, and the
  stored permissions are unchanged as well. The same holds for adding to a role a policy
  that its \<open>policies\<close> already hold.
\<close>

theorem add_is_idempotent:
  assumes "cast_ObjectId p_id = Inr i" and "Policy_findById pols i = Some p"
    and "new_ObjectId m_id = Inr x" and "IdRef x \<in> set (Policy.permissions p)"
    and "cast_ObjectId r_id = Inr j" and "Role_findById roles j = Some r"
    and "new_ObjectId q_id = Inr y" and "IdRef y \<in> set (Role.policies r)"
  shows "(Policy_valid p \<longrightarrow>
            PolicyService_addPermission pols p_id m_id = Inr (Policy_write p pols, Some p))
     \<and> (\<not> Policy_valid p \<longrightarrow>
            PolicyService_addPermission pols p_id m_id =
              Inl (ValidationError ''Policy validation failed''))
     \<and> Policy_findById
         (collection_after pols (PolicyService_addPermission pols p_id m_id)) i = Some p
     \<and> (distinct (map Policy.oid pols) \<longrightarrow>
            collection_after pols (PolicyService_addPermission pols p_id m_id) = pols)
     \<and> (Role_valid r \<longrightarrow>
            RoleService_addPolicy roles r_id q_id = Inr (Role_write r roles, Some r))
     \<and> (\<not> Role_valid r \<longrightarrow>
            RoleService_addPolicy roles r_id q_id =
              Inl (ValidationError ''Role validation failed''))
     \<and> Role_findById (collection_after roles (RoleService_addPolicy roles r_id q_id)) j = Some r
     \<and> (distinct (map Role.oid roles) \<longrightarrow>
            collection_after roles (RoleService_addPolicy roles r_id q_id) = roles)"
proof -
  note pp = PolicyService_addPermission_present [OF assms(1-4)]
  note rr = RoleService_addPolicy_present [OF assms(5-8)]
  have 1: "Policy_valid p \<longrightarrow>
            PolicyService_addPermission pols p_id m_id = Inr (Policy_write p pols, Some p)"
    using pp by simp
  have 2: "\<not> Policy_valid p \<longrightarrow>
            PolicyService_addPermission pols p_id m_id =
              Inl (ValidationError ''Policy validation failed'')"
    using pp by simp
  have 3: "Policy_findById
         (collection_after pols (PolicyService_addPermission pols p_id m_id)) i = Some p"
    using pp Policy_findById_write [OF assms(2)] Policy_findById_Some [OF assms(2)] assms(2)
    by (simp add: collection_after_def)
  have 4: "distinct (map Policy.oid pols) \<longrightarrow>
            collection_after pols (PolicyService_addPermission pols p_id m_id) = pols"
    using pp Policy_write_unchanged [of p pols] Policy_findById_Some [OF assms(2)]
    by (simp add: collection_after_def)
  have 5: "Role_valid r \<longrightarrow>
            RoleService_addPolicy roles r_id q_id = Inr (Role_write r roles, Some r)"
    using rr by simp
  have 6: "\<not> Role_valid r \<longrightarrow>
            RoleService_addPolicy roles r_id q_id =
              Inl (ValidationError ''Role validation failed'')"
    using rr by simp
  have 7: "Role_findById (collection_after roles (RoleService_addPolicy roles r_id q_id)) j =
      Some r"
    using rr Role_findById_write [OF assms(6)] Role_findById_Some [OF assms(6)] assms(6)
    by (simp add: collection_after_def)
  have 8: "distinct (map Role.oid roles) \<longrightarrow>
            collection_after roles (RoleService_addPolicy roles r_id q_id) = roles"
    using rr Role_write_unchanged [of r roles] Role_findById_Some [OF assms(6)]
    by (simp add: collection_after_def)
  from 1 2 3 4 5 6 7 8 show ?thesis by blast
qed

theorem add_is_idempotent_witness:
  "IdRef (ObjectId perm_read_hex) \<in> set (Policy.permissions viewer)
   \<and> PolicyService_addPermission sample_policies viewer_hex perm_read_hex =
       Inr (sample_policies, Some viewer)
   \<and> IdRef (ObjectId viewer_hex) \<in> set (Role.policies support)
   \<and> RoleService_addPolicy sample_roles support_hex viewer_hex =
       Inr (sample_roles, Some support)
   \<and> IdRef (ObjectId perm_read_hex) \<in> set (Policy.permissions unnamed_policy)
   \<and> PolicyService_addPermission edited_policies unnamed_hex perm_read_hex =
       Inl (ValidationError ''Policy validation failed'')
   \<and> Policy_findById
       (collection_after edited_policies
          (PolicyService_addPermission edited_policies unnamed_hex perm_read_hex))
       (ObjectId unnamed_hex) = Some unnamed_policy"
proof -
  have mem: "IdRef (ObjectId perm_read_hex) \<in> set (Policy.permissions viewer)"
    "IdRef (ObjectId viewer_hex) \<in> set (Role.policies support)"
    "IdRef (ObjectId perm_read_hex) \<in> set (Policy.permissions unnamed_policy)"
    by (simp_all add: viewer_def support_def unnamed_policy_def)
  have dis: "distinct (map Policy.oid sample_policies)" "distinct (map Role.oid sample_roles)"
    by (simp_all add: sample_policies_def sample_roles_def viewer_def core_policy_def
        support_def owner_def member_def viewer_hex_def core_hex_def support_hex_def
        owner_hex_def member_hex_def)
  have w: "Policy_write viewer sample_policies = sample_policies"
    "Role_write support sample_roles = sample_roles"
    using Policy_write_unchanged [of viewer sample_policies]
      Role_write_unchanged [of support sample_roles] dis
    by (simp_all add: sample_policies_def sample_roles_def)
  note a = add_is_idempotent [OF sample_policy_casts(2) sample_policy_lookups(2)
      sample_policy_casts(7) mem(1) sample_policy_casts(6) sample_role_lookups(3)
      sample_policy_casts(8) mem(2)]
  note b = add_is_idempotent [OF sample_policy_casts(3) sample_policy_lookups(3)
      sample_policy_casts(7) mem(3) sample_policy_casts(6) sample_role_lookups(3)
      sample_policy_casts(8) mem(2)]
  have 1: "PolicyService_addPermission sample_policies viewer_hex perm_read_hex =
       Inr (sample_policies, Some viewer)"
    using a sample_validity(1) w(1) by simp
  have 2: "RoleService_addPolicy sample_roles support_hex viewer_hex =
       Inr (sample_roles, Some support)"
    using a sample_validity(4) w(2) by simp
  have 3: "PolicyService_addPermission edited_policies unnamed_hex perm_read_hex =
       Inl (ValidationError ''Policy validation failed'')"
    using b sample_validity(3) by blast
  have 4: "Policy_findById
       (collection_after edited_policies
          (PolicyService_addPermission edited_policies unnamed_hex perm_read_hex))
       (ObjectId unnamed_hex) = Some unnamed_policy"
    using b by blast
  from mem 1 2 3 4 show ?thesis by blast
qed


section \<open>Properties of assignments\<close>

lemma active_unexpired_effective: "active_unexpired now u = effective now u"
  by (cases "UserRole.expiresAt u") (simp_all add: active_unexpired_def effective_def)

lemma effective_populate_roleId [simp]:
  "effective now (populate_roleId roles u) = effective now u"
  "UserRole.userId (populate_roleId roles u) = UserRole.userId u"
  "UserRole.expiresAt (populate_roleId roles u) = UserRole.expiresAt u"
  "UserRole.oid (populate_roleId roles u) = UserRole.oid u"
  by (simp_all add: populate_roleId_def effective_def)

lemma getUserRoles_eq:
  "getUserRoles now roles coll uid =
     map (populate_roleId roles)
       (filter (\<lambda>u. UserRole.userId u = uid \<and> effective now u) coll)"
  by (simp add: getUserRoles_def getActiveUserRoles_def active_unexpired_effective)

lemma effective_not_expired:
  "effective now a \<Longrightarrow> UserRole.expiresAt a = Some e \<Longrightarrow> now < e"
  by (simp add: effective_def)

lemma populate_roleId_role:
  "UserRole.roleId u = IdRef i \<Longrightarrow>
   UserRole.roleId (populate_roleId roles u) =
     (case Role_findById roles i of None \<Rightarrow> Null | Some r \<Rightarrow> Doc r)"
  by (simp add: populate_roleId_def)

text \<open>
  Claim C1, amended. For every user id, \<open>getUserRoles\<close> returns, in stored order,
  exactly the assignments of that user that are effective (active, not soft deleted,
  expiry null or later than \<open>now\<close>), so never one whose expiry has passed, each with its
  \<open>roleId\<close> replaced by the role document it names (\<open>null\<close> when there is none). The
  role is the stored document: its \<open>policies\<close> stay ids.
\<close>

theorem effective_roles_with_role:
  "getUserRoles now roles coll uid =
     map (populate_roleId roles)
       (filter (\<lambda>u. UserRole.userId u = uid \<and> effective now u) coll)
   \<and> (\<forall>a \<in> set (getUserRoles now roles coll uid).
        UserRole.userId a = uid \<and> effective now a \<and>
        (\<forall>e. UserRole.expiresAt a = Some e \<longrightarrow> now < e))
   \<and> (\<forall>u \<in> set coll. UserRole.userId u = uid \<and> effective now u \<longrightarrow>
        populate_roleId roles u \<in> set (getUserRoles now roles coll uid))
   \<and> (\<forall>u \<in> set coll. \<forall>i. UserRole.roleId u = IdRef i \<longrightarrow>
        UserRole.roleId (populate_roleId roles u) =
          (case Role_findById roles i of None \<Rightarrow> Null | Some r \<Rightarrow> Doc r))"
  (is "?eq \<and> ?sound \<and> ?complete \<and> ?role")
proof -
  have eq: ?eq by (rule getUserRoles_eq)
  have sound: ?sound
    unfolding getUserRoles_eq by (auto dest: effective_not_expired)
  have complete: ?complete
    unfolding getUserRoles_eq by auto
  have role: ?role
    by (simp add: populate_roleId_role)
  from eq sound complete role show ?thesis by blast
qed

lemma sample_casts:
  "cast_ObjectId support_hex = Inr (ObjectId support_hex)"
  "cast_ObjectId owner_hex = Inr (ObjectId owner_hex)"
  "cast_ObjectId member_hex = Inr (ObjectId member_hex)"
  "new_ObjectId support_hex = Inr (ObjectId support_hex)"
  "new_ObjectId member_hex = Inr (ObjectId member_hex)"
  "new_ObjectId actor_hex = Inr (ObjectId actor_hex)"
  by (simp_all add: cast_ObjectId_def new_ObjectId_def isObjectIdString_def isHexDigit_def
      toLowerCase_def toLowerChar_def support_hex_def owner_hex_def member_hex_def
      actor_hex_def)

lemma sample_getUserRoles:
  "getUserRoles 1000 sample_roles sample_userRoles ''U1'' =
     [u1_support\<lparr>UserRole.roleId := Doc support\<rparr>]"
  by (simp add: getUserRoles_def getActiveUserRoles_def active_unexpired_def
      populate_roleId_def Role_findById_def sample_userRoles_def sample_roles_def
      u1_support_def u1_owner_expired_def u2_support_revoked_def support_def
      support_hex_def owner_hex_def)

theorem effective_roles_with_role_witness:
  "getUserRoles 1000 sample_roles sample_userRoles ''U1'' =
     [u1_support\<lparr>UserRole.roleId := Doc support\<rparr>]
   \<and> effective 1000 u1_support \<and> \<not> effective 1000 u1_owner_expired
   \<and> populate_roleId sample_roles u1_support \<in>
       set (getUserRoles 1000 sample_roles sample_userRoles ''U1'')"
proof -
  have e: "effective 1000 u1_support" "\<not> effective 1000 u1_owner_expired"
    by (simp_all add: effective_def u1_support_def u1_owner_expired_def)
  have m: "u1_support \<in> set sample_userRoles" "UserRole.userId u1_support = ''U1''"
    by (simp_all add: sample_userRoles_def u1_support_def)
  from effective_roles_with_role [of 1000 sample_roles sample_userRoles "''U1''"]
  have "populate_roleId sample_roles u1_support \<in>
       set (getUserRoles 1000 sample_roles sample_userRoles ''U1'')"
    using e m by blast
  then show ?thesis using e sample_getUserRoles by simp
qed

text \<open>
  Claim C1 as written also has the role expanded with its policies and these with their
  permissions. For \<open>U1\<close> in the sample the returned role holds the id of \<open>viewer\<close>,
  although the policy and its permission are stored.
\<close>

theorem effective_roles_not_deep_counterexample:
  "getUserRoles 1000 sample_roles sample_userRoles ''U1'' =
     [u1_support\<lparr>UserRole.roleId := Doc support\<rparr>]
   \<and> Role.policies support = [IdRef (ObjectId viewer_hex)]
   \<and> Policy_findById sample_policies (ObjectId viewer_hex) = Some viewer
   \<and> Permission_findById sample_permissions (ObjectId perm_read_hex) = Some perm_read
   \<and> \<not> list_all fully_expanded (getUserRoles 1000 sample_roles sample_userRoles ''U1'')"
proof -
  have 1: "Role.policies support = [IdRef (ObjectId viewer_hex)]"
    by (simp add: support_def)
  have 2: "Policy_findById sample_policies (ObjectId viewer_hex) = Some viewer"
    by (simp add: Policy_findById_def sample_policies_def viewer_def)
  have 3: "Permission_findById sample_permissions (ObjectId perm_read_hex) = Some perm_read"
    by (simp add: Permission_findById_def sample_permissions_def perm_read_def)
  have 4: "\<not> list_all fully_expanded [u1_support\<lparr>UserRole.roleId := Doc support\<rparr>]"
    by (simp add: fully_expanded_def policy_expanded_def 1)
  show ?thesis using sample_getUserRoles 1 2 3 4 by simp
qed

lemma roleId_matches_simps [simp]:
  "roleId_matches stored (FilterObjectId i) = (stored = IdRef i)"
  "roleId_matches stored (FilterString s) = False"
  by (simp_all add: roleId_matches_def)

lemma find_unique:
  assumes mem: "a \<in> set xs" and pa: "P a"
    and uniq: "\<And>u. u \<in> set xs \<Longrightarrow> P u \<Longrightarrow> u = a"
  shows "find P xs = Some a"
proof (cases "find P xs")
  case None
  then have "\<not> P a" using mem by (simp add: find_None_iff)
  with pa show ?thesis by simp
next
  case (Some b)
  then have "b \<in> set xs" "P b"
    by (auto simp: find_Some_iff)
  then have "b = a" by (rule uniq)
  with Some show ?thesis by simp
qed

lemma assignRole_found_live:
  assumes "new_ObjectId (AssignRoleData.roleId data) = Inr r"
    and "find (\<lambda>u. UserRole.userId u = AssignRoleData.userId data \<and>
                    UserRole.roleId u = IdRef r) coll = Some a"
    and "UserRole.deletedAt a = None"
  shows "assignRole now newId coll data = Inr (coll, a)"
  unfolding assignRole_def assms(1) using assms(2,3) by simp

lemma UserRole_save_duplicate:
  assumes "UserRole_valid d" and "UserRole.deletedAt d = None"
    and "x \<in> set coll" and "UserRole.oid x \<noteq> UserRole.oid d"
    and "UserRole.userId x = UserRole.userId d" and "UserRole.roleId x = UserRole.roleId d"
    and "UserRole.deletedAt x = None"
  shows "UserRole_save d coll = Inl (MongoServerError ''E11000 duplicate key error'')"
proof -
  have "UserRole_index_violated coll d"
    unfolding UserRole_index_violated_def list_ex_iff using assms(2-7) by blast
  then show ?thesis using assms(1) by (simp add: UserRole_save_def)
qed

lemma assignRole_found_deleted:
  assumes "new_ObjectId (AssignRoleData.roleId data) = Inr r"
    and "find (\<lambda>u. UserRole.userId u = AssignRoleData.userId data \<and>
                    UserRole.roleId u = IdRef r) coll = Some d"
    and "UserRole.deletedAt d \<noteq> None"
  shows "assignRole now newId coll data =
     UserRole_save
       (d\<lparr>UserRole.deletedAt := None, UserRole.isActive := True,
          UserRole.assignedBy := AssignRoleData.assignedBy data,
          UserRole.reason :=
            Some (trim (case AssignRoleData.reason data of
                          None \<Rightarrow> ''Role restored''
                        | Some s \<Rightarrow> if s = [] then ''Role restored'' else s))\<rparr>)
       coll"
  unfolding assignRole_def assms(1) using assms(2,3) by simp

text \<open>
  Claim C3. \<open>assign\<close> on a pair that already has a live assignment returns that assignment
  unchanged and creates no row: this holds when the document that the lookup of
  \<open>assignRole\<close> returns is the live one, in particular when the pair has a single stored
  assignment. The lookup takes the first document of the pair, soft deleted or not. When
  it is a soft-deleted one and a live assignment of the pair exists as well, the call
  does not return the live assignment: it tries to restore the soft-deleted document,
  and the unique index on the live documents rejects the write with a duplicate-key
  error that nothing catches.
\<close>

theorem assign_live_pair:
  assumes "new_ObjectId (AssignRoleData.roleId data) = Inr r"
  shows "(find (\<lambda>u. UserRole.userId u = AssignRoleData.userId data \<and>
                     UserRole.roleId u = IdRef r) coll = Some a \<and>
          UserRole.deletedAt a = None \<longrightarrow>
            assignRole now newId coll data = Inr (coll, a))
       \<and> (a \<in> set coll \<and> UserRole.userId a = AssignRoleData.userId data \<and>
          UserRole.roleId a = IdRef r \<and> UserRole.deletedAt a = None \<and>
          (\<forall>u \<in> set coll. UserRole.userId u = AssignRoleData.userId data \<and>
                            UserRole.roleId u = IdRef r \<longrightarrow> u = a) \<longrightarrow>
            assignRole now newId coll data = Inr (coll, a))
       \<and> (find (\<lambda>u. UserRole.userId u = AssignRoleData.userId data \<and>
                     UserRole.roleId u = IdRef r) coll = Some d \<and>
          UserRole.deletedAt d \<noteq> None \<and>
          UserRole.userId d \<noteq> [] \<and>
          length (trim (case AssignRoleData.reason data of
                          None \<Rightarrow> ''Role restored''
                        | Some s \<Rightarrow> if s = [] then ''Role restored'' else s)) \<le> 500 \<and>
          a \<in> set coll \<and> UserRole.oid a \<noteq> UserRole.oid d \<and>
          UserRole.userId a = AssignRoleData.userId data \<and>
          UserRole.roleId a = IdRef r \<and> UserRole.deletedAt a = None \<longrightarrow>
            assignRole now newId coll data =
              Inl (MongoServerError ''E11000 duplicate key error''))"
  (is "?first \<and> ?single \<and> ?paired")
proof -
  let ?P = "\<lambda>u. UserRole.userId u = AssignRoleData.userId data \<and> UserRole.roleId u = IdRef r"
  have 1: ?first
    using assignRole_found_live [OF assms] by blast
  have 2: ?single
  proof (intro impI, elim conjE)
    assume mem: "a \<in> set coll" and u: "UserRole.userId a = AssignRoleData.userId data"
      and ro: "UserRole.roleId a = IdRef r" and live: "UserRole.deletedAt a = None"
      and uniq: "\<forall>u \<in> set coll. UserRole.userId u = AssignRoleData.userId data \<and>
                   UserRole.roleId u = IdRef r \<longrightarrow> u = a"
    have "find ?P coll = Some a"
    proof (rule find_unique [OF mem])
      show "?P a" using u ro by simp
    next
      fix x assume "x \<in> set coll" "?P x"
      then show "x = a" using uniq by blast
    qed
    then show "assignRole now newId coll data = Inr (coll, a)"
      using assignRole_found_live [OF assms _ live] by simp
  qed
  have 3: ?paired
  proof (intro impI, elim conjE)
    assume f: "find ?P coll = Some d" and del: "UserRole.deletedAt d \<noteq> None"
      and uid: "UserRole.userId d \<noteq> []"
      and len: "length (trim (case AssignRoleData.reason data of
                          None \<Rightarrow> ''Role restored''
                        | Some s \<Rightarrow> if s = [] then ''Role restored'' else s)) \<le> 500"
      and mem: "a \<in> set coll" and other: "UserRole.oid a \<noteq> UserRole.oid d"
      and u: "UserRole.userId a = AssignRoleData.userId data"
      and ro: "UserRole.roleId a = IdRef r" and live: "UserRole.deletedAt a = None"
    let ?d' = "d\<lparr>UserRole.deletedAt := None, UserRole.isActive := True,
          UserRole.assignedBy := AssignRoleData.assignedBy data,
          UserRole.reason :=
            Some (trim (case AssignRoleData.reason data of
                          None \<Rightarrow> ''Role restored''
                        | Some s \<Rightarrow> if s = [] then ''Role restored'' else s))\<rparr>"
    from f have pd: "?P d" by (auto simp: find_Some_iff)
    have valid: "UserRole_valid ?d'"
      using uid len by (simp add: UserRole_valid_def)
    have "UserRole_save ?d' coll = Inl (MongoServerError ''E11000 duplicate key error'')"
      by (rule UserRole_save_duplicate [OF valid _ mem]) (use other u ro live pd in simp_all)
    then show "assignRole now newId coll data =
        Inl (MongoServerError ''E11000 duplicate key error'')"
      using assignRole_found_deleted [OF assms f del] by simp
  qed
  from 1 2 3 show ?thesis by blast
qed

lemma sample_assign_lookups:
  "find (\<lambda>u. UserRole.userId u = AssignRoleData.userId u1_support_data \<and>
              UserRole.roleId u = IdRef (ObjectId support_hex)) sample_userRoles = Some u1_support"
  "find (\<lambda>u. UserRole.userId u = AssignRoleData.userId u3_member_data \<and>
              UserRole.roleId u = IdRef (ObjectId member_hex)) paired_userRoles =
     Some u3_member_deleted"
  by (simp_all add: sample_userRoles_def paired_userRoles_def u1_support_def
      u1_support_data_def u3_member_data_def u3_member_deleted_def)

lemma sample_assign_data:
  "AssignRoleData.roleId u1_support_data = support_hex"
  "AssignRoleData.roleId u3_member_data = member_hex"
  "AssignRoleData.userId u3_member_data = ''U3''"
  "AssignRoleData.reason u3_member_data = None"
  by (simp_all add: u1_support_data_def u3_member_data_def)

lemma sample_assign_fields:
  "UserRole.deletedAt u1_support = None"
  "UserRole.assignedAt u1_support = 100"
  "UserRole.deletedAt u3_member_deleted = Some 200"
  "UserRole.userId u3_member_deleted \<noteq> []"
  "UserRole.oid u3_member_live \<noteq> UserRole.oid u3_member_deleted"
  "UserRole.userId u3_member_live = AssignRoleData.userId u3_member_data"
  "UserRole.roleId u3_member_live = IdRef (ObjectId member_hex)"
  "UserRole.deletedAt u3_member_live = None"
  "UserRole.isActive u3_member_live = True"
  "u3_member_live \<in> set paired_userRoles"
  by (simp_all add: u1_support_def u3_member_deleted_def u3_member_live_def
      paired_userRoles_def u3_member_data_def)

lemma trim_Role_restored: "length (trim ''Role restored'') \<le> 500"
  by code_simp

theorem assign_live_pair_witness:
  "assignRole 1000 (ObjectId fresh_hex) sample_userRoles u1_support_data =
     Inr (sample_userRoles, u1_support)
   \<and> UserRole.assignedAt u1_support = 100
   \<and> u3_member_live \<in> set paired_userRoles
   \<and> UserRole.userId u3_member_live = AssignRoleData.userId u3_member_data
   \<and> UserRole.roleId u3_member_live = IdRef (ObjectId member_hex)
   \<and> UserRole.deletedAt u3_member_live = None
   \<and> UserRole.isActive u3_member_live = True
   \<and> assignRole 1000 (ObjectId fresh_hex) paired_userRoles u3_member_data =
       Inl (MongoServerError ''E11000 duplicate key error'')"
proof -
  have r1: "new_ObjectId (AssignRoleData.roleId u1_support_data) = Inr (ObjectId support_hex)"
    by (simp add: sample_assign_data sample_casts)
  have r2: "new_ObjectId (AssignRoleData.roleId u3_member_data) = Inr (ObjectId member_hex)"
    by (simp add: sample_assign_data sample_casts)
  have a: "assignRole 1000 (ObjectId fresh_hex) sample_userRoles u1_support_data =
     Inr (sample_userRoles, u1_support)"
    using assign_live_pair [OF r1, where coll = sample_userRoles and a = u1_support
        and now = 1000 and newId = "ObjectId fresh_hex"]
    by (simp add: sample_assign_lookups sample_assign_fields)
  have b: "assignRole 1000 (ObjectId fresh_hex) paired_userRoles u3_member_data =
       Inl (MongoServerError ''E11000 duplicate key error'')"
    using assign_live_pair [OF r2, where coll = paired_userRoles and a = u3_member_live
        and d = u3_member_deleted and now = 1000 and newId = "ObjectId fresh_hex"]
    by (simp add: sample_assign_lookups sample_assign_fields sample_assign_data(4)
        trim_Role_restored)
  show ?thesis using a b by (simp add: sample_assign_fields)
qed

lemma find_never: "find (\<lambda>u. False) xs = None"
  by (induction xs) simp_all

lemma sample_effective:
  "has_effective 1000 sample_userRoles ''U1'' (ObjectId support_hex)"
  by (simp add: has_effective_def effective_for_def effective_def sample_userRoles_def
      u1_support_def)

lemma sample_u1_support:
  "u1_support \<in> set sample_userRoles"
  "UserRole.expiresAt u1_support = None"
  by (simp_all add: sample_userRoles_def u1_support_def)

text \<open>
  Claim C4. \<open>revoke\<close> returns null and raises no error when the pair has no effective
  assignment; but it does the same when the pair has one. The filter of \<open>revokeRole\<close>
  holds the role id as the string it was given, the stored role ids are
  \<open>ObjectId\<close>s and the path is not cast, so no document is ever found: nothing is soft
  deleted, no metadata is written, and an assignment that was effective stays
  effective.
\<close>

theorem revoke_finds_no_assignment:
  "revokeRole now coll uid rid revokedBy = Inr (coll, None)
   \<and> (\<forall>r. has_effective now coll uid r \<longrightarrow>
         has_effective now (collection_after coll (revokeRole now coll uid rid revokedBy)) uid r)"
  by (simp add: revokeRole_def collection_after_def find_never)

theorem revoke_finds_no_assignment_witness:
  "has_effective 1000 sample_userRoles ''U1'' (ObjectId support_hex)
   \<and> new_ObjectId support_hex = Inr (ObjectId support_hex)
   \<and> revokeRole 1000 sample_userRoles ''U1'' support_hex (Some actor_hex) =
       Inr (sample_userRoles, None)
   \<and> has_effective 1000
       (collection_after sample_userRoles
          (revokeRole 1000 sample_userRoles ''U1'' support_hex (Some actor_hex)))
       ''U1'' (ObjectId support_hex)"
proof -
  note r = revoke_finds_no_assignment [of 1000 sample_userRoles "''U1''" support_hex
      "Some actor_hex"]
  from r have 1: "revokeRole 1000 sample_userRoles ''U1'' support_hex (Some actor_hex) =
       Inr (sample_userRoles, None)"
    by (rule conjunct1)
  from r sample_effective have 2: "has_effective 1000
       (collection_after sample_userRoles
          (revokeRole 1000 sample_userRoles ''U1'' support_hex (Some actor_hex)))
       ''U1'' (ObjectId support_hex)"
    by blast
  show ?thesis using 1 2 sample_effective sample_casts(4) by blast
qed

text \<open>
  Claim C5. \<open>extend-expiry\<close> returns null without an error when no effective assignment
  exists; but it never extends an expiry. \<open>extendExpiry\<close> has the filter of
  \<open>revokeRole\<close>, with the role id as a string, so it finds no document and returns null
  for every pair, also for one with an effective assignment; the collection is left as
  it was.
\<close>

theorem extendExpiry_finds_no_assignment:
  "extendExpiry coll uid rid days = Inr (coll, None)"
  by (simp add: extendExpiry_def find_never)

theorem extendExpiry_finds_no_assignment_witness:
  "has_effective 1000 sample_userRoles ''U1'' (ObjectId support_hex)
   \<and> u1_support \<in> set sample_userRoles
   \<and> UserRole.expiresAt u1_support = None
   \<and> extendExpiry sample_userRoles ''U1'' support_hex 7 = Inr (sample_userRoles, None)"
  using extendExpiry_finds_no_assignment [of sample_userRoles "''U1''" support_hex 7]
    sample_effective sample_u1_support
  by blast


section \<open>Properties of the translation of provisioning failures\<close>

lemma createAdmin_rethrow_authError:
  "createAdmin_rethrow (createAdmin_authError e) = createAdmin_authError e"
  by (simp add: createAdmin_rethrow_def createAdmin_authError_def)

lemma createAdmin_posted_error:
  assumes "findOne_email repo (CreateAdminDto.email dto) = None"
  shows "createAdmin now newAdminId newId (Inl e) repo userRoles dto =
           Inl (createAdmin_authError e)"
  using assms by (simp add: createAdmin_def Let_def createAdmin_rethrow_authError)

lemma validationMessage_cases:
  "responseMessage e = Some (Arr xs) \<Longrightarrow> validationMessage e = Str (join '', '' xs)"
  "(\<And>xs. responseMessage e \<noteq> Some (Arr xs)) \<Longrightarrow>
     validationMessage e = message_or (responseMessage e) AUTH_SERVICE_VALIDATION_ERROR"
  by (auto simp: validationMessage_def split: option.splits message.splits)

text \<open>
  Claim C7. When the request to the provisioning service fails, \<open>createAdmin\<close> (for an
  email that is not taken) and \<open>sendResetLink\<close> throw the translation of the failure.
  A 409 response gives Conflict on creation, a 404 response gives NotFound on password
  reset, a 400 response gives BadRequest, with a list-valued message joined by
  \<open>", "\<close>, and any other failure gives the generic \<open>InternalServerErrorException\<close>;
  each carries the message of the response when it has one, and a default otherwise.
  The failure "service unavailable" (the \<open>InternalServerErrorException\<close> with the
  message \<open>AUTH_SERVICE_UNAVAILABLE\<close>) is given for the codes \<open>ECONNREFUSED\<close> and
  \<open>ETIMEDOUT\<close> only. Against the claim, the timeout that the request itself sets does
  not give it: that error has the code \<open>ECONNABORTED\<close> and no response, and it is
  translated to the generic failure with the default message.
\<close>

theorem provisioning_failure_translation:
  "(findOne_email repo (CreateAdminDto.email dto) = None \<longrightarrow>
      createAdmin now newAdminId newId (Inl e) repo userRoles dto =
        Inl (createAdmin_authError e))
   \<and> sendResetLink (Inl e) = Inl (sendResetLink_error e)
   \<and> (AxiosError.code e = Some ''ECONNREFUSED'' \<or> AxiosError.code e = Some ''ETIMEDOUT'' \<longrightarrow>
        createAdmin_authError e = InternalServerErrorException (Str AUTH_SERVICE_UNAVAILABLE) \<and>
        sendResetLink_error e = InternalServerErrorException (Str AUTH_SERVICE_UNAVAILABLE))
   \<and> (AxiosError.code e \<noteq> Some ''ECONNREFUSED'' \<and> AxiosError.code e \<noteq> Some ''ETIMEDOUT'' \<longrightarrow>
        (statusCode e = Some 409 \<longrightarrow>
           createAdmin_authError e =
             ConflictException
               (message_or (responseMessage e) ''User already exists in auth service'')) \<and>
        (statusCode e = Some 404 \<longrightarrow>
           sendResetLink_error e =
             NotFoundException (message_or (responseMessage e) USER_NOT_FOUND)) \<and>
        (statusCode e = Some 400 \<and> responseMessage e = Some (Arr xs) \<longrightarrow>
           createAdmin_authError e = BadRequestException (Str (join '', '' xs)) \<and>
           sendResetLink_error e = BadRequestException (Str (join '', '' xs))) \<and>
        (statusCode e = Some 400 \<and> (\<forall>ys. responseMessage e \<noteq> Some (Arr ys)) \<longrightarrow>
           createAdmin_authError e =
             BadRequestException
               (message_or (responseMessage e) AUTH_SERVICE_VALIDATION_ERROR) \<and>
           sendResetLink_error e =
             BadRequestException
               (message_or (responseMessage e) AUTH_SERVICE_VALIDATION_ERROR)) \<and>
        (statusCode e \<noteq> Some 409 \<and> statusCode e \<noteq> Some 400 \<longrightarrow>
           createAdmin_authError e =
             InternalServerErrorException
               (message_or (responseMessage e) AUTH_SERVICE_SIGNUP_FAILED)) \<and>
        (statusCode e \<noteq> Some 404 \<and> statusCode e \<noteq> Some 400 \<longrightarrow>
           sendResetLink_error e =
             InternalServerErrorException
               (message_or (responseMessage e) RESET_LINK_SEND_FAILED)))
   \<and> (AxiosError.code e = Some ''ECONNABORTED'' \<and> AxiosError.response e = None \<longrightarrow>
        createAdmin_authError e =
          InternalServerErrorException (Str AUTH_SERVICE_SIGNUP_FAILED) \<and>
        sendResetLink_error e = InternalServerErrorException (Str RESET_LINK_SEND_FAILED))
   \<and> (s \<noteq> [] \<longrightarrow> message_or (Some (Str s)) d = Str s)
   \<and> message_or (Some (Arr xs)) d = Arr xs
   \<and> message_or None d = Str d \<and> message_or (Some (Str [])) d = Str d"
  (is "?create \<and> ?reset \<and> ?down \<and> ?up \<and> ?timeout \<and> ?m1 \<and> ?m2 \<and> ?m3")
proof -
  have create: ?create using createAdmin_posted_error by blast
  have reset: ?reset by (simp add: sendResetLink_def)
  have down: ?down by (auto simp: createAdmin_authError_def sendResetLink_error_def)
  have up: ?up
  proof (intro impI)
    assume c: "AxiosError.code e \<noteq> Some ''ECONNREFUSED'' \<and>
        AxiosError.code e \<noteq> Some ''ETIMEDOUT''"
    have a: "statusCode e = Some 409 \<longrightarrow>
           createAdmin_authError e =
             ConflictException
               (message_or (responseMessage e) ''User already exists in auth service'')"
      using c by (simp add: createAdmin_authError_def)
    have b: "statusCode e = Some 404 \<longrightarrow>
           sendResetLink_error e =
             NotFoundException (message_or (responseMessage e) USER_NOT_FOUND)"
      using c by (simp add: sendResetLink_error_def)
    have d1: "statusCode e = Some 400 \<and> responseMessage e = Some (Arr xs) \<longrightarrow>
           createAdmin_authError e = BadRequestException (Str (join '', '' xs)) \<and>
           sendResetLink_error e = BadRequestException (Str (join '', '' xs))"
      using c validationMessage_cases(1) [of e xs]
      by (simp add: createAdmin_authError_def sendResetLink_error_def)
    have d2: "statusCode e = Some 400 \<and> (\<forall>ys. responseMessage e \<noteq> Some (Arr ys)) \<longrightarrow>
           createAdmin_authError e =
             BadRequestException
               (message_or (responseMessage e) AUTH_SERVICE_VALIDATION_ERROR) \<and>
           sendResetLink_error e =
             BadRequestException
               (message_or (responseMessage e) AUTH_SERVICE_VALIDATION_ERROR)"
      using c validationMessage_cases(2) [of e]
      by (simp add: createAdmin_authError_def sendResetLink_error_def)
    have g1: "statusCode e \<noteq> Some 409 \<and> statusCode e \<noteq> Some 400 \<longrightarrow>
           createAdmin_authError e =
             InternalServerErrorException
               (message_or (responseMessage e) AUTH_SERVICE_SIGNUP_FAILED)"
      using c by (simp add: createAdmin_authError_def)
    have g2: "statusCode e \<noteq> Some 404 \<and> statusCode e \<noteq> Some 400 \<longrightarrow>
           sendResetLink_error e =
             InternalServerErrorException
               (message_or (responseMessage e) RESET_LINK_SEND_FAILED)"
      using c by (simp add: sendResetLink_error_def)
    from a b d1 d2 g1 g2
    show "(statusCode e = Some 409 \<longrightarrow>
           createAdmin_authError e =
             ConflictException
               (message_or (responseMessage e) ''User already exists in auth service'')) \<and>
        (statusCode e = Some 404 \<longrightarrow>
           sendResetLink_error e =
             NotFoundException (message_or (responseMessage e) USER_NOT_FOUND)) \<and>
        (statusCode e = Some 400 \<and> responseMessage e = Some (Arr xs) \<longrightarrow>
           createAdmin_authError e = BadRequestException (Str (join '', '' xs)) \<and>
           sendResetLink_error e = BadRequestException (Str (join '', '' xs))) \<and>
        (statusCode e = Some 400 \<and> (\<forall>ys. responseMessage e \<noteq> Some (Arr ys)) \<longrightarrow>
           createAdmin_authError e =
             BadRequestException
               (message_or (responseMessage e) AUTH_SERVICE_VALIDATION_ERROR) \<and>
           sendResetLink_error e =
             BadRequestException
               (message_or (responseMessage e) AUTH_SERVICE_VALIDATION_ERROR)) \<and>
        (statusCode e \<noteq> Some 409 \<and> statusCode e \<noteq> Some 400 \<longrightarrow>
           createAdmin_authError e =
             InternalServerErrorException
               (message_or (responseMessage e) AUTH_SERVICE_SIGNUP_FAILED)) \<and>
        (statusCode e \<noteq> Some 404 \<and> statusCode e \<noteq> Some 400 \<longrightarrow>
           sendResetLink_error e =
             InternalServerErrorException
               (message_or (responseMessage e) RESET_LINK_SEND_FAILED))"
      by blast
  qed
  have timeout: ?timeout
    by (simp add: createAdmin_authError_def sendResetLink_error_def statusCode_def
        responseMessage_def message_or_def)
  have m: "?m1" "?m2" "?m3" by (simp_all add: message_or_def)
  from create reset down up timeout m show ?thesis by blast
qed

theorem provisioning_failure_translation_witness:
  "createAdmin 1000 new_admin_uuid (ObjectId fresh_hex) (Inl conflict_error) sample_accounts []
       new_admin_dto = Inl (ConflictException (Str ''User exists''))
   \<and> createAdmin 1000 new_admin_uuid (ObjectId fresh_hex) (Inl invalid_error) sample_accounts []
       new_admin_dto =
       Inl (BadRequestException (Str ''email must be an email, email should not be empty''))
   \<and> createAdmin 1000 new_admin_uuid (ObjectId fresh_hex) (Inl refused_error) sample_accounts []
       new_admin_dto = Inl (InternalServerErrorException (Str AUTH_SERVICE_UNAVAILABLE))
   \<and> createAdmin 1000 new_admin_uuid (ObjectId fresh_hex) (Inl server_error) sample_accounts []
       new_admin_dto = Inl (InternalServerErrorException (Str ''boom''))
   \<and> createAdmin 1000 new_admin_uuid (ObjectId fresh_hex) (Inl missing_error) sample_accounts []
       new_admin_dto = Inl (InternalServerErrorException (Str AUTH_SERVICE_SIGNUP_FAILED))
   \<and> sendResetLink (Inl missing_error) = Inl (NotFoundException (Str USER_NOT_FOUND))
   \<and> sendResetLink (Inl invalid_error) =
       Inl (BadRequestException (Str ''email must be an email, email should not be empty''))
   \<and> sendResetLink (Inl refused_error) =
       Inl (InternalServerErrorException (Str AUTH_SERVICE_UNAVAILABLE))
   \<and> sendResetLink (Inl conflict_error) = Inl (InternalServerErrorException (Str ''User exists''))
   \<and> createAdmin 1000 new_admin_uuid (ObjectId fresh_hex) (Inl timeout_error) sample_accounts []
       new_admin_dto = Inl (InternalServerErrorException (Str AUTH_SERVICE_SIGNUP_FAILED))
   \<and> sendResetLink (Inl timeout_error) =
       Inl (InternalServerErrorException (Str RESET_LINK_SEND_FAILED))"
proof -
  have free: "findOne_email sample_accounts (CreateAdminDto.email new_admin_dto) = None"
    by (simp add: findOne_email_def sample_accounts_def root_account_def staff_account_def
        idle_account_def locked_root_account_def new_admin_dto_def)
  have st:
    "statusCode conflict_error = Some 409" "statusCode invalid_error = Some 400"
    "statusCode missing_error = Some 404" "statusCode server_error = Some 500"
    "statusCode refused_error = None" "statusCode timeout_error = None"
    by (simp_all add: statusCode_def conflict_error_def invalid_error_def missing_error_def
        server_error_def refused_error_def timeout_error_def)
  have ms:
    "responseMessage conflict_error = Some (Str ''User exists'')"
    "responseMessage invalid_error =
       Some (Arr [''email must be an email'', ''email should not be empty''])"
    "responseMessage missing_error = None"
    "responseMessage server_error = Some (Str ''boom'')"
    "responseMessage timeout_error = None"
    by (simp_all add: responseMessage_def conflict_error_def invalid_error_def
        missing_error_def server_error_def timeout_error_def)
  have cd:
    "AxiosError.code conflict_error = Some ''ERR_BAD_REQUEST''"
    "AxiosError.code invalid_error = Some ''ERR_BAD_REQUEST''"
    "AxiosError.code missing_error = Some ''ERR_BAD_REQUEST''"
    "AxiosError.code server_error = Some ''ERR_BAD_RESPONSE''"
    "AxiosError.code refused_error = Some ''ECONNREFUSED''"
    "AxiosError.code timeout_error = Some ''ECONNABORTED''"
    "AxiosError.response timeout_error = None"
    by (simp_all add: conflict_error_def invalid_error_def missing_error_def
        server_error_def refused_error_def timeout_error_def)
  have jn: "join '', '' [''email must be an email'', ''email should not be empty''] =
      ''email must be an email, email should not be empty''"
    by simp
  have mo: "message_or (Some (Str ''User exists'')) d = Str ''User exists''"
    "message_or (Some (Str ''boom'')) d = Str ''boom''"
    "message_or None d = Str d" for d
    by (simp_all add: message_or_def)
  note t = provisioning_failure_translation [where repo = sample_accounts
      and dto = new_admin_dto and now = 1000 and newAdminId = new_admin_uuid
      and newId = "ObjectId fresh_hex" and userRoles = "[]"]
  show ?thesis
    using t [where e = conflict_error] t [where e = refused_error]
      t [where e = invalid_error
          and xs = "[''email must be an email'', ''email should not be empty'']"]
      t [where e = server_error] t [where e = missing_error] t [where e = timeout_error]
      free
    by (simp add: st ms cd jn mo)
qed

end
